theory Spec2Isabelle
  imports Complex_Main "HOL-Library.Word"
begin

unbundle bit_operations_syntax

section \<open>Data model\<close>

text \<open>
  Fixed-width integers of the C++ sources: \<open>uint8_t\<close>, \<open>uint32_t\<close>, and
  \<open>size_t\<close>/\<open>uint64_t\<close> on the 64-bit targets the project builds for.
\<close>

type_synonym u8 = "8 word"
type_synonym u32 = "32 word"
type_synonym u64 = "64 word"

text \<open>
  A C \<open>float\<close> is only stored and handed on by the code modelled here; the single
  floating-point product (\<open>totalFrames\<close> in \<open>open\<close>) is kept symbolic in the
  recorded SDK call.
\<close>

type_synonym cfloat = real

text \<open>\<open>struct AudioFormat\<close> of DirettaOutputSimple.h.\<close>

record AudioFormat =
  sampleRate :: u32
  bitDepth :: u8
  channels :: u8
  isDSD :: bool

text \<open>
  The constants of \<open>DIRETTA::FormatID\<close> that the adapter names. They belong to the
  Diretta Host SDK, which is not part of the repository, so their values are a
  parameter: a table from constant name to bit mask. A \<open>FormatID\<close> is a bit mask
  of unspecified width, combined with \<open>|=\<close>; it is modelled as a natural number
  with bitwise \<open>OR\<close>.
\<close>

datatype fmt_const =
    FMT_INVALID
  | FMT_DSD_SIZ_32
  | FMT_DSD_R64 | FMT_DSD_R128 | FMT_DSD_R256 | FMT_DSD_R512 | FMT_DSD_R1024
  | FMT_PCM_SIGNED_16 | FMT_PCM_SIGNED_24 | FMT_PCM_SIGNED_32
  | FMT_PCM_R44100 | FMT_PCM_R48000 | FMT_PCM_R88200 | FMT_PCM_R96000
  | FMT_PCM_R176400 | FMT_PCM_R192000 | FMT_PCM_R352800 | FMT_PCM_R384000
  | FMT_PCM_R705600 | FMT_PCM_R768000
  | FMT_CH_2_0

type_synonym FormatID = nat
type_synonym fmt_table = "fmt_const \<Rightarrow> FormatID"

section \<open>Format identifier: \<open>DirettaOutputSimple::buildFormatID\<close>\<close>

text \<open>The three \<open>switch\<close> statements: the constant selected, \<open>None\<close> for \<open>default\<close>.\<close>

definition dsd_rate_switch :: "u32 \<Rightarrow> fmt_const option" where
  "dsd_rate_switch r =
     (if r = 2822400 then Some FMT_DSD_R64
      else if r = 5644800 then Some FMT_DSD_R128
      else if r = 11289600 then Some FMT_DSD_R256
      else if r = 22579200 then Some FMT_DSD_R512
      else if r = 45158400 then Some FMT_DSD_R1024
      else None)"

definition pcm_depth_switch :: "u8 \<Rightarrow> fmt_const option" where
  "pcm_depth_switch b =
     (if b = 16 then Some FMT_PCM_SIGNED_16
      else if b = 24 then Some FMT_PCM_SIGNED_24
      else if b = 32 then Some FMT_PCM_SIGNED_32
      else None)"

definition pcm_rate_switch :: "u32 \<Rightarrow> fmt_const option" where
  "pcm_rate_switch r =
     (if r = 44100 then Some FMT_PCM_R44100
      else if r = 48000 then Some FMT_PCM_R48000
      else if r = 88200 then Some FMT_PCM_R88200
      else if r = 96000 then Some FMT_PCM_R96000
      else if r = 176400 then Some FMT_PCM_R176400
      else if r = 192000 then Some FMT_PCM_R192000
      else if r = 352800 then Some FMT_PCM_R352800
      else if r = 384000 then Some FMT_PCM_R384000
      else if r = 705600 then Some FMT_PCM_R705600
      else if r = 768000 then Some FMT_PCM_R768000
      else None)"

definition buildFormatID :: "fmt_table \<Rightarrow> AudioFormat \<Rightarrow> FormatID" where
  "buildFormatID K format =
     (if isDSD format then
        (case dsd_rate_switch (sampleRate format) of
           None \<Rightarrow> K FMT_INVALID
         | Some r \<Rightarrow> (K FMT_DSD_SIZ_32 OR K r) OR K FMT_CH_2_0)
      else
        (case pcm_depth_switch (bitDepth format) of
           None \<Rightarrow> K FMT_INVALID
         | Some d \<Rightarrow>
             (case pcm_rate_switch (sampleRate format) of
                None \<Rightarrow> K FMT_INVALID
              | Some r \<Rightarrow> (K d OR K r) OR K FMT_CH_2_0)))"

text \<open>The supported combinations, as the specification lists them.\<close>

definition pcm_rates :: "u32 list" where
  "pcm_rates = [44100, 48000, 88200, 96000, 176400, 192000, 352800, 384000, 705600, 768000]"

definition dsd_rates :: "u32 list" where
  "dsd_rates = [2822400, 5644800, 11289600, 22579200, 45158400]"

definition pcm_depths :: "u8 list" where
  "pcm_depths = [16, 24, 32]"

definition supported :: "AudioFormat \<Rightarrow> bool" where
  "supported f =
     (if isDSD f then sampleRate f \<in> set dsd_rates
      else bitDepth f \<in> set pcm_depths \<and> sampleRate f \<in> set pcm_rates)"

text \<open>
  Two formats are the same combination when they agree on the encoding, on the
  sample rate and, for PCM, on the bit depth.
\<close>

definition same_combination :: "AudioFormat \<Rightarrow> AudioFormat \<Rightarrow> bool" where
  "same_combination f g =
     (isDSD f = isDSD g \<and> sampleRate f = sampleRate g \<and>
      (isDSD f \<or> bitDepth f = bitDepth g))"

text \<open>
  What the adapter relies on when it combines SDK constants with \<open>|=\<close>: sample
  size, rate and channel layout occupy pairwise disjoint bit fields, the codes
  inside a field are distinct, and the sentinel has no bit of the stereo code.
\<close>

definition field :: "fmt_table \<Rightarrow> fmt_const list \<Rightarrow> FormatID" where
  "field K cs = foldr (\<lambda>c m. K c OR m) cs 0"

definition size_consts :: "fmt_const list" where
  "size_consts = [FMT_PCM_SIGNED_16, FMT_PCM_SIGNED_24, FMT_PCM_SIGNED_32, FMT_DSD_SIZ_32]"

definition pcm_rate_consts :: "fmt_const list" where
  "pcm_rate_consts =
     [FMT_PCM_R44100, FMT_PCM_R48000, FMT_PCM_R88200, FMT_PCM_R96000, FMT_PCM_R176400,
      FMT_PCM_R192000, FMT_PCM_R352800, FMT_PCM_R384000, FMT_PCM_R705600, FMT_PCM_R768000]"

definition dsd_rate_consts :: "fmt_const list" where
  "dsd_rate_consts =
     [FMT_DSD_R64, FMT_DSD_R128, FMT_DSD_R256, FMT_DSD_R512, FMT_DSD_R1024]"

definition sdk_layout :: "fmt_table \<Rightarrow> bool" where
  "sdk_layout K =
     (distinct (map K size_consts) \<and>
      distinct (map K pcm_rate_consts) \<and>
      distinct (map K dsd_rate_consts) \<and>
      field K size_consts AND field K (pcm_rate_consts @ dsd_rate_consts) = 0 \<and>
      field K size_consts AND K FMT_CH_2_0 = 0 \<and>
      field K (pcm_rate_consts @ dsd_rate_consts) AND K FMT_CH_2_0 = 0 \<and>
      K FMT_INVALID AND K FMT_CH_2_0 = 0 \<and>
      K FMT_CH_2_0 \<noteq> 0)"


text \<open>A table with that layout, for evaluating the mapping on concrete formats.\<close>

definition example_table :: fmt_table where
  "example_table c =
     (case c of
        FMT_INVALID \<Rightarrow> 0
      | FMT_PCM_SIGNED_16 \<Rightarrow> 1 | FMT_PCM_SIGNED_24 \<Rightarrow> 2 | FMT_PCM_SIGNED_32 \<Rightarrow> 3
      | FMT_DSD_SIZ_32 \<Rightarrow> 4
      | FMT_PCM_R44100 \<Rightarrow> 16 | FMT_PCM_R48000 \<Rightarrow> 32 | FMT_PCM_R88200 \<Rightarrow> 48
      | FMT_PCM_R96000 \<Rightarrow> 64 | FMT_PCM_R176400 \<Rightarrow> 80 | FMT_PCM_R192000 \<Rightarrow> 96
      | FMT_PCM_R352800 \<Rightarrow> 112 | FMT_PCM_R384000 \<Rightarrow> 128 | FMT_PCM_R705600 \<Rightarrow> 144
      | FMT_PCM_R768000 \<Rightarrow> 160
      | FMT_DSD_R64 \<Rightarrow> 16 | FMT_DSD_R128 \<Rightarrow> 32 | FMT_DSD_R256 \<Rightarrow> 48
      | FMT_DSD_R512 \<Rightarrow> 64 | FMT_DSD_R1024 \<Rightarrow> 80
      | FMT_CH_2_0 \<Rightarrow> 256)"

section \<open>The SDK seen from the adapter\<close>

text \<open>
  \<open>DIRETTA::SyncBuffer\<close> is the proprietary rendering target. The adapter's effect
  on it is the sequence of member calls it makes, recorded in order; what the SDK
  answers is an input. \<open>Sb_setupBuffer\<close> keeps the two factors of \<open>totalFrames\<close>,
  \<open>Sb_setStream\<close> the byte size of the stream handed over.
\<close>

datatype sdk_call =
    Sb_find
  | Sb_getSinkName int
  | Sb_getSinkAddr int
  | Sb_open int
  | Sb_setSink string int
  | Sb_setSinkConfigure FormatID
  | Sb_getSinkConfigure
  | Sb_configTransferAuto int int int
  | Sb_configTransferVarMax int
  | Sb_setupBuffer u32 cfloat
  | Sb_connect
  | Sb_is_connect
  | Sb_play
  | Sb_stop
  | Sb_disconnect
  | Sb_close
  | Sb_setStream u64

text \<open>
  The answers of the SDK during one adapter call: the constant table, the result
  of \<open>find()\<close>, the address of each sink, the format the target reports back, and
  the answer to the n-th \<open>is_connect()\<close> of an \<open>open\<close>.
\<close>

record sdk =
  FormatID_of :: fmt_table
  find_result :: int
  sinkAddr :: "int \<Rightarrow> string"
  sinkConfigure :: FormatID
  is_connect :: "nat \<Rightarrow> bool"

section \<open>The adapter: \<open>class DirettaOutputSimple\<close>\<close>

text \<open>
  The member variables, and \<open>sdk_calls\<close> for the calls made on \<open>m_syncBuffer\<close> so
  far. \<open>m_syncBuffer\<close> itself is assigned once in the constructor (\<open>new\<close> does not
  return null) and reset only in the destructor, so between the two the null
  checks of the source always pass; they have no branch here. Console output of
  the adapter is not modelled.
\<close>

record DirettaOutputSimple =
  m_targetAddress :: string
  m_selectedTargetIndex :: int
  m_currentFormat :: AudioFormat
  m_bufferSeconds :: cfloat
  m_playing :: bool
  m_isPaused :: bool
  m_thredMode :: int
  m_cycleTime :: int
  m_cycleMinTime :: int
  m_infoCycle :: int
  m_mtu :: int
  m_totalSamplesSent :: u64
  sdk_calls :: "sdk_call list"

definition DirettaOutputSimple_new :: DirettaOutputSimple where
  "DirettaOutputSimple_new =
     \<lparr> m_targetAddress = [],
       m_selectedTargetIndex = - 1,
       m_currentFormat = \<lparr> sampleRate = 0, bitDepth = 0, channels = 0, isDSD = False \<rparr>,
       m_bufferSeconds = 2,
       m_playing = False,
       m_isPaused = False,
       m_thredMode = 1,
       m_cycleTime = 10000,
       m_cycleMinTime = 333,
       m_infoCycle = 5000,
       m_mtu = 0,
       m_totalSamplesSent = 0,
       sdk_calls = [] \<rparr>"

definition sb :: "sdk_call list \<Rightarrow> DirettaOutputSimple \<Rightarrow> DirettaOutputSimple" where
  "sb cs s = s\<lparr> sdk_calls := sdk_calls s @ cs \<rparr>"

definition setThredMode :: "int \<Rightarrow> DirettaOutputSimple \<Rightarrow> DirettaOutputSimple" where
  "setThredMode mode s = s\<lparr> m_thredMode := mode \<rparr>"

definition setCycleTime :: "int \<Rightarrow> DirettaOutputSimple \<Rightarrow> DirettaOutputSimple" where
  "setCycleTime microseconds s = s\<lparr> m_cycleTime := microseconds \<rparr>"

definition setCycleMinTime :: "int \<Rightarrow> DirettaOutputSimple \<Rightarrow> DirettaOutputSimple" where
  "setCycleMinTime microseconds s = s\<lparr> m_cycleMinTime := microseconds \<rparr>"

definition setInfoCycle :: "int \<Rightarrow> DirettaOutputSimple \<Rightarrow> DirettaOutputSimple" where
  "setInfoCycle microseconds s = s\<lparr> m_infoCycle := microseconds \<rparr>"

definition setMTU :: "int \<Rightarrow> DirettaOutputSimple \<Rightarrow> DirettaOutputSimple" where
  "setMTU mtu s = s\<lparr> m_mtu := mtu \<rparr>"

definition listAvailableTargets :: "sdk \<Rightarrow> DirettaOutputSimple \<Rightarrow> DirettaOutputSimple" where
  "listAvailableTargets e s =
     (let count = find_result e in
      if count = 0 then sb [Sb_find] s
      else sb (Sb_find # map Sb_getSinkName [0..count - 1]) s)"

definition selectTarget :: "sdk \<Rightarrow> int \<Rightarrow> DirettaOutputSimple \<Rightarrow> bool \<times> DirettaOutputSimple" where
  "selectTarget e index s =
     (let count = find_result e;
          s1 = sb [Sb_find] s in
      if count = 0 then (False, s1)
      else if index < 0 \<or> index \<ge> count then (False, s1)
      else
        let s2 = sb [Sb_getSinkName index, Sb_getSinkAddr index] s1 in
        (True, s2\<lparr> m_selectedTargetIndex := index, m_targetAddress := sinkAddr e index \<rparr>))"

text \<open>
  The wait of \<open>open\<close>: \<open>while (!is_connect() && waitedMs < timeoutMs)\<close> with
  \<open>timeoutMs = 10000\<close> and steps of 100. The result is the number of
  \<open>is_connect()\<close> calls the loop has made when it is left.
\<close>

function connect_wait :: "(nat \<Rightarrow> bool) \<Rightarrow> nat \<Rightarrow> int \<Rightarrow> nat" where
  "connect_wait ic n waitedMs =
     (if \<not> ic n \<and> waitedMs < 10000 then connect_wait ic (Suc n) (waitedMs + 100)
      else Suc n)"
  by pat_completeness auto
termination
  by (relation "measure (\<lambda>(ic, n, waitedMs). nat (10000 - waitedMs))") auto

declare connect_wait.simps [simp del]

definition isLowBitrate :: "AudioFormat \<Rightarrow> bool" where
  "isLowBitrate format =
     (bitDepth format \<le> 16 \<and> sampleRate format \<le> 48000 \<and> \<not> isDSD format)"

definition "open" ::
  "sdk \<Rightarrow> AudioFormat \<Rightarrow> cfloat \<Rightarrow> DirettaOutputSimple \<Rightarrow> bool \<times> DirettaOutputSimple" where
  "open e format bufferSeconds s =
     (if m_selectedTargetIndex s < 0 then (False, s)
      else
        let s1 = s\<lparr> m_currentFormat := format, m_bufferSeconds := bufferSeconds \<rparr>;
            s2 = sb [Sb_open (m_thredMode s1)] s1;
            mtu = (if m_mtu s2 > 0 then m_mtu s2 else 16128);
            s3 = sb [Sb_setSink (m_targetAddress s2) mtu] s2;
            formatID = buildFormatID (FormatID_of e) format;
            s4 = sb [Sb_setSinkConfigure formatID, Sb_getSinkConfigure] s3;
            s5 = (if isLowBitrate format
                  then sb [Sb_configTransferAuto (m_infoCycle s4) (m_cycleMinTime s4)
                             (m_cycleTime s4)] s4
                  else sb [Sb_configTransferVarMax (m_infoCycle s4)] s4);
            s6 = sb [Sb_setupBuffer (sampleRate format) bufferSeconds, Sb_connect] s5;
            polls = connect_wait (is_connect e) 0 0;
            s7 = sb (replicate (Suc polls) Sb_is_connect) s6
        in
        if \<not> is_connect e polls then (False, s7)
        else (True, (sb [Sb_play] s7)
                      \<lparr> m_playing := True, m_isPaused := False, m_totalSamplesSent := 0 \<rparr>))"

text \<open>
  \<open>sendAudio\<close>: only the sizes are modelled, not the bytes behind \<open>data\<close>.
  \<open>bytesPerSample\<close> is computed in \<open>int\<close> from the two promoted \<open>uint8_t\<close>
  fields and converted to \<open>size_t\<close>; the products with \<open>numSamples\<close> are
  \<open>size_t\<close> products.
\<close>

definition dataSize :: "AudioFormat \<Rightarrow> u64 \<Rightarrow> u64" where
  "dataSize fmt numSamples =
     (if isDSD fmt then (numSamples * ucast (channels fmt)) div 8
      else
        let bytesPerSample =
              (word_of_nat ((unat (bitDepth fmt) div 8) * unat (channels fmt)) :: u64)
        in numSamples * bytesPerSample)"

definition sendAudio :: "u64 \<Rightarrow> DirettaOutputSimple \<Rightarrow> bool \<times> DirettaOutputSimple" where
  "sendAudio numSamples s =
     (if \<not> m_playing s then (False, s)
      else if m_isPaused s then (True, s)
      else
        (True, (sb [Sb_setStream (dataSize (m_currentFormat s) numSamples)] s)
                 \<lparr> m_totalSamplesSent := m_totalSamplesSent s + numSamples \<rparr>))"

definition disconnectFromTarget :: "DirettaOutputSimple \<Rightarrow> DirettaOutputSimple" where
  "disconnectFromTarget s = sb [Sb_disconnect, Sb_close] s"

definition changeFormat ::
  "sdk \<Rightarrow> AudioFormat \<Rightarrow> DirettaOutputSimple \<Rightarrow> bool \<times> DirettaOutputSimple" where
  "changeFormat e newFormat s =
     (let s1 = (if m_playing s then disconnectFromTarget (sb [Sb_stop] s) else s)
      in open e newFormat (m_bufferSeconds s1) s1)"

definition pause :: "DirettaOutputSimple \<Rightarrow> DirettaOutputSimple" where
  "pause s =
     (if \<not> m_playing s \<or> m_isPaused s then s
      else (sb [Sb_stop] s)\<lparr> m_isPaused := True \<rparr>)"

definition resume :: "DirettaOutputSimple \<Rightarrow> DirettaOutputSimple" where
  "resume s =
     (if \<not> m_playing s \<or> \<not> m_isPaused s then s
      else (sb [Sb_play] s)\<lparr> m_isPaused := False \<rparr>)"

definition close :: "DirettaOutputSimple \<Rightarrow> DirettaOutputSimple" where
  "close s =
     (if \<not> m_playing s then s
      else (disconnectFromTarget (sb [Sb_stop] s))\<lparr> m_playing := False, m_isPaused := False \<rparr>)"

text \<open>The destructor calls \<open>close()\<close> before it frees the SDK object.\<close>

definition destroy :: "DirettaOutputSimple \<Rightarrow> DirettaOutputSimple" where
  "destroy s = close s"


section \<open>Histories of adapter calls\<close>

text \<open>
  A client of the adapter calls its public members one after the other, starting
  from a freshly constructed object. Each call comes with the SDK's answers at
  that moment; the history keeps every call with the value it returned
  (\<open>None\<close> for a \<open>void\<close> member), the latest first.
\<close>

datatype api_call =
    ListAvailableTargets
  | SelectTarget int
  | Open AudioFormat cfloat
  | SendAudio u64
  | ChangeFormat AudioFormat
  | Pause
  | Resume
  | Close
  | SetThredMode int
  | SetCycleTime int
  | SetCycleMinTime int
  | SetInfoCycle int
  | SetMTU int

type_synonym history = "(api_call \<times> bool option) list"

fun api_step :: "sdk \<Rightarrow> api_call \<Rightarrow> DirettaOutputSimple \<Rightarrow> bool option \<times> DirettaOutputSimple" where
  "api_step e ListAvailableTargets s = (None, listAvailableTargets e s)"
| "api_step e (SelectTarget index) s = (case selectTarget e index s of (r, s') \<Rightarrow> (Some r, s'))"
| "api_step e (Open format bufferSeconds) s =
     (case open e format bufferSeconds s of (r, s') \<Rightarrow> (Some r, s'))"
| "api_step e (SendAudio numSamples) s = (case sendAudio numSamples s of (r, s') \<Rightarrow> (Some r, s'))"
| "api_step e (ChangeFormat newFormat) s =
     (case changeFormat e newFormat s of (r, s') \<Rightarrow> (Some r, s'))"
| "api_step e Pause s = (None, pause s)"
| "api_step e Resume s = (None, resume s)"
| "api_step e Close s = (None, close s)"
| "api_step e (SetThredMode mode) s = (None, setThredMode mode s)"
| "api_step e (SetCycleTime us) s = (None, setCycleTime us s)"
| "api_step e (SetCycleMinTime us) s = (None, setCycleMinTime us s)"
| "api_step e (SetInfoCycle us) s = (None, setInfoCycle us s)"
| "api_step e (SetMTU mtu) s = (None, setMTU mtu s)"

definition api_next ::
  "history \<times> DirettaOutputSimple \<Rightarrow> sdk \<times> api_call \<Rightarrow> history \<times> DirettaOutputSimple" where
  "api_next hs ec =
     (case api_step (fst ec) (snd ec) (snd hs) of (r, s') \<Rightarrow> ((snd ec, r) # fst hs, s'))"

definition api_run :: "(sdk \<times> api_call) list \<Rightarrow> history \<times> DirettaOutputSimple" where
  "api_run cs = foldl api_next ([], DirettaOutputSimple_new) cs"

text \<open>Whether some \<open>selectTarget\<close> of the history returned true.\<close>

fun select_succeeded :: "history \<Rightarrow> bool" where
  "select_succeeded [] = False"
| "select_succeeded ((SelectTarget index, Some True) # h) = True"
| "select_succeeded (x # h) = select_succeeded h"

text \<open>The format of the latest \<open>open\<close>, called directly or by \<open>changeFormat\<close>.\<close>

fun last_opened :: "history \<Rightarrow> AudioFormat option" where
  "last_opened [] = None"
| "last_opened ((Open format bufferSeconds, r) # h) = Some format"
| "last_opened ((ChangeFormat newFormat, r) # h) = Some newFormat"
| "last_opened (x # h) = last_opened h"

text \<open>The calls a member has added to the SDK trace.\<close>

definition new_calls :: "DirettaOutputSimple \<Rightarrow> DirettaOutputSimple \<Rightarrow> sdk_call list" where
  "new_calls s s' = drop (length (sdk_calls s)) (sdk_calls s')"

datatype transfer_mode = SmallPacket | LargePacket

fun transfer_modes :: "sdk_call list \<Rightarrow> transfer_mode list" where
  "transfer_modes [] = []"
| "transfer_modes (Sb_configTransferAuto info cmin cmax # cs) = SmallPacket # transfer_modes cs"
| "transfer_modes (Sb_configTransferVarMax info # cs) = LargePacket # transfer_modes cs"
| "transfer_modes (c # cs) = transfer_modes cs"


section \<open>The wrapper: \<open>main\<close> of squeeze2diretta-wrapper.cpp\<close>

text \<open>
  The fields of \<open>struct Config\<close> that the parent process reads; the squeezelite
  options only reach the child's argument vector.
\<close>

record Config =
  sample_format :: int
  diretta_target :: u32
  buffer_seconds :: cfloat
  thread_mode :: int
  cycle_time :: int
  cycle_min_time :: int
  info_cycle :: int
  mtu :: int
  list_targets :: bool

text \<open>
  What the operating system does for one run: whether \<open>pipe\<close> succeeds, what
  \<open>fork\<close> returns, and what the parent meets at each turn of the loop
  \<open>while (running)\<close>: either the flag has been cleared by the signal handler
  (\<open>Stopped\<close>), or the flag is set and \<open>read\<close> returns the given value.
\<close>

datatype pump_event = Stopped | Read int

record os =
  pipe_ok :: bool
  fork_result :: int
  reads :: "pump_event list"

text \<open>The wrapper's own diagnostics and its system calls, in order.\<close>

datatype wrapper_event =
    Err_select_failed
  | Err_pipe_failed
  | Err_fork_failed
  | Os_close_write_end
  | Msg_squeezelite_started
  | Err_open_failed
  | Msg_connected
  | Msg_squeezelite_closed
  | Err_read
  | Err_send_failed
  | Msg_shutting_down
  | Os_close_read_end
  | Os_kill_SIGTERM
  | Os_waitpid
  | Msg_stopped

datatype fault = Division_by_zero

definition bytes_per_frame :: "AudioFormat \<Rightarrow> u64" where
  "bytes_per_frame format = word_of_nat ((unat (bitDepth format) div 8) * unat (channels format))"

definition CHUNK_SIZE :: u64 where
  "CHUNK_SIZE = 8192"

definition buffer_size :: "AudioFormat \<Rightarrow> u64" where
  "buffer_size format = CHUNK_SIZE * bytes_per_frame format"

definition pump_num_samples :: "AudioFormat \<Rightarrow> int \<Rightarrow> u64" where
  "pump_num_samples format bytes_read =
     word_of_int bytes_read div bytes_per_frame format * ucast (channels format)"

text \<open>
  The loop. \<open>None\<close> when the events run out with the loop still waiting in
  \<open>read\<close>; a fault for the division by a zero \<open>bytes_per_frame\<close>; otherwise the
  adapter and the diagnostics when the loop is left.
\<close>

fun pump ::
  "AudioFormat \<Rightarrow> pump_event list \<Rightarrow> DirettaOutputSimple \<times> wrapper_event list \<Rightarrow>
     (fault + DirettaOutputSimple \<times> wrapper_event list) option" where
  "pump format [] (diretta, out) = None"
| "pump format (Stopped # evs) (diretta, out) = Some (Inr (diretta, out))"
| "pump format (Read bytes_read # evs) (diretta, out) =
     (if bytes_read \<le> 0 then
        Some (Inr (diretta,
                   out @ [if bytes_read = 0 then Msg_squeezelite_closed else Err_read]))
      else if bytes_per_frame format = 0 then Some (Inl Division_by_zero)
      else
        (case sendAudio (pump_num_samples format bytes_read) diretta of
           (False, diretta') \<Rightarrow> Some (Inr (diretta', out @ [Err_send_failed]))
         | (True, diretta') \<Rightarrow> pump format evs (diretta', out)))"

datatype main_result = Exit int | Exec_squeezelite | Crash fault

text \<open>
  The format \<open>main\<close> assumes for the stream: 44100 Hz stereo PCM with the
  configured sample format, an \<open>int\<close> narrowed to \<open>uint8_t\<close>.
\<close>

definition main_format :: "Config \<Rightarrow> AudioFormat" where
  "main_format config =
     \<lparr> sampleRate = 44100,
       bitDepth = word_of_int (sample_format config),
       channels = 2,
       isDSD = False \<rparr>"

text \<open>
  \<open>main\<close> after \<open>parse_args\<close>, in the parent process. The result is \<open>None\<close> when
  the loop never ends on the given events; otherwise how the process ends, the
  adapter after its destructor, and the diagnostics.
\<close>

definition main ::
  "Config \<Rightarrow> sdk \<Rightarrow> os \<Rightarrow> (main_result \<times> DirettaOutputSimple \<times> wrapper_event list) option" where
  "main config e env =
     (let d0 = setInfoCycle (info_cycle config)
                 (setCycleMinTime (cycle_min_time config)
                   (setCycleTime (cycle_time config)
                     (setThredMode (thread_mode config) DirettaOutputSimple_new)));
          diretta = (if mtu config > 0 then setMTU (mtu config) d0 else d0)
      in
      if list_targets config then Some (Exit 0, destroy (listAvailableTargets e diretta), [])
      else
        (case selectTarget e (sint (diretta_target config - 1)) diretta of
           (False, diretta) \<Rightarrow> Some (Exit 1, destroy diretta, [Err_select_failed])
         | (True, diretta) \<Rightarrow>
             if \<not> pipe_ok env then Some (Exit 1, destroy diretta, [Err_pipe_failed])
             else if fork_result env = - 1 then Some (Exit 1, destroy diretta, [Err_fork_failed])
             else if fork_result env = 0 then Some (Exec_squeezelite, diretta, [])
             else
               let format = main_format config;
                   out = [Os_close_write_end, Msg_squeezelite_started]
               in
               (case open e format (buffer_seconds config) diretta of
                  (False, diretta) \<Rightarrow>
                    Some (Exit 1, destroy diretta, out @ [Err_open_failed, Os_kill_SIGTERM])
                | (True, diretta) \<Rightarrow>
                    (case pump format (reads env) (diretta, out @ [Msg_connected]) of
                       None \<Rightarrow> None
                     | Some (Inl f) \<Rightarrow> Some (Crash f, diretta, out @ [Msg_connected])
                     | Some (Inr (diretta, out)) \<Rightarrow>
                         Some (Exit 0,
                               destroy (close diretta),
                               out @ [Msg_shutting_down, Os_close_read_end]
                                   @ (if fork_result env > 0 then [Os_kill_SIGTERM, Os_waitpid]
                                      else [])
                                   @ [Msg_stopped])))))"

text \<open>Concrete inputs for evaluating the model.\<close>

definition sdk_connects :: sdk where
  "sdk_connects =
     \<lparr> FormatID_of = example_table,
       find_result = 1,
       sinkAddr = (\<lambda>i. ''192.168.1.50''),
       sinkConfigure = 0,
       is_connect = (\<lambda>n. True) \<rparr>"

definition sdk_never_connects :: sdk where
  "sdk_never_connects = sdk_connects\<lparr> is_connect := (\<lambda>n. False) \<rparr>"

definition sdk_no_target :: sdk where
  "sdk_no_target = sdk_connects\<lparr> find_result := 0 \<rparr>"

definition pcm_44100_16 :: AudioFormat where
  "pcm_44100_16 = \<lparr> sampleRate = 44100, bitDepth = 16, channels = 2, isDSD = False \<rparr>"

definition pcm_96000_24 :: AudioFormat where
  "pcm_96000_24 = \<lparr> sampleRate = 96000, bitDepth = 24, channels = 2, isDSD = False \<rparr>"

definition dsd_64 :: AudioFormat where
  "dsd_64 = \<lparr> sampleRate = 2822400, bitDepth = 1, channels = 2, isDSD = True \<rparr>"

definition pcm_22050_16 :: AudioFormat where
  "pcm_22050_16 = \<lparr> sampleRate = 22050, bitDepth = 16, channels = 2, isDSD = False \<rparr>"

definition os_eof_at_once :: os where
  "os_eof_at_once = \<lparr> pipe_ok = True, fork_result = 4242, reads = [Read 0] \<rparr>"

definition os_data_then_eof :: os where
  "os_data_then_eof =
     \<lparr> pipe_ok = True, fork_result = 4242, reads = [Read 8192, Read 4096, Read 0, Read 8192] \<rparr>"

definition default_config :: Config where
  "default_config =
     \<lparr> sample_format = 24, diretta_target = 1, buffer_seconds = 2, thread_mode = 1,
       cycle_time = 10000, cycle_min_time = 333, info_cycle = 5000, mtu = 0,
       list_targets = False \<rparr>"


definition selected_state :: DirettaOutputSimple where
  "selected_state = snd (selectTarget sdk_connects 0 DirettaOutputSimple_new)"

definition playing_state :: DirettaOutputSimple where
  "playing_state = snd (open sdk_connects pcm_44100_16 2 selected_state)"

definition paused_state :: DirettaOutputSimple where
  "paused_state = pause playing_state"


text \<open>
  The byte count and the sample count as the specification words them, over the
  natural numbers.
\<close>

definition claimed_bytes :: "AudioFormat \<Rightarrow> nat \<Rightarrow> nat" where
  "claimed_bytes format numSamples =
     (if isDSD format then (numSamples * unat (channels format)) div 8
      else numSamples * unat (channels format) * (unat (bitDepth format) div 8))"

definition claimed_num_samples :: "AudioFormat \<Rightarrow> nat \<Rightarrow> nat" where
  "claimed_num_samples format bytes_read =
     (bytes_read div ((unat (bitDepth format) div 8) * unat (channels format)))
       * unat (channels format)"

definition calls_no_target :: "(sdk \<times> api_call) list" where
  "calls_no_target =
     [(sdk_no_target, SelectTarget 0), (sdk_connects, SelectTarget 3), (sdk_connects, SetMTU 9000)]"

definition calls_playing :: "(sdk \<times> api_call) list" where
  "calls_playing = [(sdk_connects, SelectTarget 0), (sdk_connects, Open pcm_44100_16 2)]"

definition calls_failed_change :: "(sdk \<times> api_call) list" where
  "calls_failed_change = calls_playing @ [(sdk_never_connects, ChangeFormat pcm_96000_24)]"



section \<open>The format-identifier mapping\<close>

lemma field_mem: "c \<in> set cs \<Longrightarrow> K c AND field K cs = K c"
  unfolding field_def
  by (induction cs) (auto simp: bit_eq_iff bit_and_iff bit_or_iff)

lemma field_disjoint: "c \<in> set cs \<Longrightarrow> field K cs AND m = 0 \<Longrightarrow> K c AND m = 0"
  unfolding field_def
  by (induction cs) (auto simp: bit_eq_iff bit_and_iff bit_or_iff)

lemma field_extract:
  fixes a r c F :: nat
  assumes "a AND F = a" "r AND F = 0" "c AND F = 0"
  shows "((a OR r) OR c) AND F = a"
  using assms by (auto simp: bit_eq_iff bit_and_iff bit_or_iff)

lemma dsd_rate_switch_None: "r \<notin> set dsd_rates \<Longrightarrow> dsd_rate_switch r = None"
  by (simp add: dsd_rate_switch_def dsd_rates_def)

lemma pcm_rate_switch_None: "r \<notin> set pcm_rates \<Longrightarrow> pcm_rate_switch r = None"
  by (simp add: pcm_rate_switch_def pcm_rates_def)

lemma pcm_depth_switch_None: "b \<notin> set pcm_depths \<Longrightarrow> pcm_depth_switch b = None"
  by (simp add: pcm_depth_switch_def pcm_depths_def)

lemma buildFormatID_unsupported:
  "\<not> supported f \<Longrightarrow> buildFormatID K f = K FMT_INVALID"
  unfolding supported_def buildFormatID_def
  by (auto simp: dsd_rate_switch_None pcm_rate_switch_None pcm_depth_switch_None
      split: if_splits option.splits)

lemma dsd_rate_switch_Some:
  "r \<in> set dsd_rates \<Longrightarrow> \<exists>c. dsd_rate_switch r = Some c \<and> c \<in> set dsd_rate_consts"
  by (auto simp: dsd_rate_switch_def dsd_rates_def dsd_rate_consts_def)

lemma pcm_rate_switch_Some:
  "r \<in> set pcm_rates \<Longrightarrow> \<exists>c. pcm_rate_switch r = Some c \<and> c \<in> set pcm_rate_consts"
  by (auto simp: pcm_rate_switch_def pcm_rates_def pcm_rate_consts_def)

lemma pcm_depth_switch_Some:
  "b \<in> set pcm_depths \<Longrightarrow>
     \<exists>c. pcm_depth_switch b = Some c \<and> c \<in> set size_consts \<and> c \<noteq> FMT_DSD_SIZ_32"
  by (auto simp: pcm_depth_switch_def pcm_depths_def size_consts_def)

lemma dsd_rate_switch_inj:
  "dsd_rate_switch r = Some c \<Longrightarrow> dsd_rate_switch r' = Some c \<Longrightarrow> r = r'"
  by (simp add: dsd_rate_switch_def split: if_splits)

lemma pcm_rate_switch_inj:
  "pcm_rate_switch r = Some c \<Longrightarrow> pcm_rate_switch r' = Some c \<Longrightarrow> r = r'"
  by (simp add: pcm_rate_switch_def split: if_splits)

lemma pcm_depth_switch_inj:
  "pcm_depth_switch b = Some c \<Longrightarrow> pcm_depth_switch b' = Some c \<Longrightarrow> b = b'"
  by (simp add: pcm_depth_switch_def split: if_splits)


lemma supported_decomp:
  assumes "supported f"
  shows "\<exists>a r. buildFormatID K f = (K a OR K r) OR K FMT_CH_2_0 \<and>
           a \<in> set size_consts \<and>
           (if isDSD f
            then a = FMT_DSD_SIZ_32 \<and> r \<in> set dsd_rate_consts \<and>
                 dsd_rate_switch (sampleRate f) = Some r
            else a \<noteq> FMT_DSD_SIZ_32 \<and> r \<in> set pcm_rate_consts \<and>
                 pcm_depth_switch (bitDepth f) = Some a \<and>
                 pcm_rate_switch (sampleRate f) = Some r)"
proof (cases "isDSD f")
  case True
  with assms have "sampleRate f \<in> set dsd_rates" by (simp add: supported_def)
  then obtain r where "dsd_rate_switch (sampleRate f) = Some r" "r \<in> set dsd_rate_consts"
    using dsd_rate_switch_Some by blast
  with True show ?thesis
    by (auto simp: buildFormatID_def size_consts_def)
next
  case False
  with assms have "bitDepth f \<in> set pcm_depths" "sampleRate f \<in> set pcm_rates"
    by (simp_all add: supported_def)
  then obtain a r where "pcm_depth_switch (bitDepth f) = Some a" "a \<in> set size_consts"
      "a \<noteq> FMT_DSD_SIZ_32" "pcm_rate_switch (sampleRate f) = Some r" "r \<in> set pcm_rate_consts"
    using pcm_depth_switch_Some pcm_rate_switch_Some by blast
  with False show ?thesis
    by (auto simp: buildFormatID_def)
qed

lemma layout_size_field:
  assumes "sdk_layout K" "a \<in> set size_consts" "r \<in> set (pcm_rate_consts @ dsd_rate_consts)"
  shows "((K a OR K r) OR K FMT_CH_2_0) AND field K size_consts = K a"
proof -
  have 1: "K a AND field K size_consts = K a" using assms(2) by (rule field_mem)
  have "field K (pcm_rate_consts @ dsd_rate_consts) AND field K size_consts = 0"
    using assms(1) by (simp add: sdk_layout_def and.commute)
  then have 2: "K r AND field K size_consts = 0" using assms(3) field_disjoint by blast
  have 3: "K FMT_CH_2_0 AND field K size_consts = 0"
    using assms(1) by (simp add: sdk_layout_def and.commute)
  from 1 2 3 show ?thesis by (rule field_extract)
qed

lemma field_extract_mid:
  fixes a r c F :: nat
  assumes "a AND F = 0" "r AND F = r" "c AND F = 0"
  shows "((a OR r) OR c) AND F = r"
  using assms by (auto simp: bit_eq_iff bit_and_iff bit_or_iff)

lemma layout_rate_field:
  assumes "sdk_layout K" "a \<in> set size_consts" "r \<in> set (pcm_rate_consts @ dsd_rate_consts)"
  shows "((K a OR K r) OR K FMT_CH_2_0) AND field K (pcm_rate_consts @ dsd_rate_consts) = K r"
proof -
  let ?R = "field K (pcm_rate_consts @ dsd_rate_consts)"
  have "field K size_consts AND ?R = 0" using assms(1) by (simp add: sdk_layout_def)
  then have 1: "K a AND ?R = 0" using assms(2) field_disjoint by blast
  have 2: "K r AND ?R = K r" using assms(3) by (rule field_mem)
  have 3: "K FMT_CH_2_0 AND ?R = 0" using assms(1) by (simp add: sdk_layout_def and.commute)
  from 1 2 3 show ?thesis by (rule field_extract_mid)
qed

lemma layout_not_sentinel:
  assumes "sdk_layout K"
  shows "(x OR K FMT_CH_2_0) \<noteq> K FMT_INVALID"
proof
  assume "x OR K FMT_CH_2_0 = K FMT_INVALID"
  then have "(x OR K FMT_CH_2_0) AND K FMT_CH_2_0 = 0"
    using assms by (simp add: sdk_layout_def)
  moreover have "(x OR K FMT_CH_2_0) AND K FMT_CH_2_0 = K FMT_CH_2_0"
    by (auto simp: bit_eq_iff bit_and_iff bit_or_iff)
  ultimately show False using assms by (simp add: sdk_layout_def)
qed

lemma distinct_map_eq: "distinct (map K cs) \<Longrightarrow> a \<in> set cs \<Longrightarrow> b \<in> set cs \<Longrightarrow> K a = K b \<Longrightarrow> a = b"
  by (meson distinct_map inj_onD)

lemma buildFormatID_injective:
  assumes L: "sdk_layout K" and f: "supported f" and g: "supported g"
    and eq: "buildFormatID K f = buildFormatID K g"
  shows "same_combination f g"
proof -
  from supported_decomp [OF f, of K] obtain a r where
    fa: "buildFormatID K f = (K a OR K r) OR K FMT_CH_2_0" "a \<in> set size_consts"
    and fr: "if isDSD f
            then a = FMT_DSD_SIZ_32 \<and> r \<in> set dsd_rate_consts \<and>
                 dsd_rate_switch (sampleRate f) = Some r
            else a \<noteq> FMT_DSD_SIZ_32 \<and> r \<in> set pcm_rate_consts \<and>
                 pcm_depth_switch (bitDepth f) = Some a \<and>
                 pcm_rate_switch (sampleRate f) = Some r"
    by blast
  from supported_decomp [OF g, of K] obtain a' r' where
    ga: "buildFormatID K g = (K a' OR K r') OR K FMT_CH_2_0" "a' \<in> set size_consts"
    and gr: "if isDSD g
            then a' = FMT_DSD_SIZ_32 \<and> r' \<in> set dsd_rate_consts \<and>
                 dsd_rate_switch (sampleRate g) = Some r'
            else a' \<noteq> FMT_DSD_SIZ_32 \<and> r' \<in> set pcm_rate_consts \<and>
                 pcm_depth_switch (bitDepth g) = Some a' \<and>
                 pcm_rate_switch (sampleRate g) = Some r'"
    by blast
  have rin: "r \<in> set (pcm_rate_consts @ dsd_rate_consts)"
    using fr by (auto split: if_splits)
  have rin': "r' \<in> set (pcm_rate_consts @ dsd_rate_consts)"
    using gr by (auto split: if_splits)
  have "K a = K a'"
    using layout_size_field [OF L fa(2) rin] layout_size_field [OF L ga(2) rin'] eq fa(1) ga(1)
    by simp
  then have aa: "a = a'"
    using L fa(2) ga(2) distinct_map_eq [of K size_consts a a'] by (simp add: sdk_layout_def)
  have kr: "K r = K r'"
    using layout_rate_field [OF L fa(2) rin] layout_rate_field [OF L ga(2) rin'] eq fa(1) ga(1)
    by simp
  show ?thesis
  proof (cases "isDSD f")
    case True
    with fr aa gr have dg: "isDSD g" by (auto split: if_splits)
    from True fr have 1: "r \<in> set dsd_rate_consts" "dsd_rate_switch (sampleRate f) = Some r"
      by simp_all
    from dg gr have 2: "r' \<in> set dsd_rate_consts" "dsd_rate_switch (sampleRate g) = Some r'"
      by simp_all
    have "r = r'"
      using L 1(1) 2(1) kr distinct_map_eq [of K dsd_rate_consts r r']
      by (simp add: sdk_layout_def)
    with 1 2 have "sampleRate f = sampleRate g" using dsd_rate_switch_inj by blast
    with True dg show ?thesis by (simp add: same_combination_def)
  next
    case False
    with fr aa gr have dg: "\<not> isDSD g" by (auto split: if_splits)
    from False fr have 1: "r \<in> set pcm_rate_consts" "pcm_rate_switch (sampleRate f) = Some r"
      "pcm_depth_switch (bitDepth f) = Some a"
      by simp_all
    from dg gr have 2: "r' \<in> set pcm_rate_consts" "pcm_rate_switch (sampleRate g) = Some r'"
      "pcm_depth_switch (bitDepth g) = Some a'"
      by simp_all
    have "r = r'"
      using L 1(1) 2(1) kr distinct_map_eq [of K pcm_rate_consts r r']
      by (simp add: sdk_layout_def)
    with 1 2 have "sampleRate f = sampleRate g" using pcm_rate_switch_inj by blast
    moreover from 1 2 aa have "bitDepth f = bitDepth g" using pcm_depth_switch_inj by blast
    ultimately show ?thesis using False dg by (simp add: same_combination_def)
  qed
qed

lemma buildFormatID_not_sentinel:
  assumes "sdk_layout K" "supported f"
  shows "buildFormatID K f \<noteq> K FMT_INVALID"
proof -
  from supported_decomp [OF assms(2), of K] obtain a r where
    "buildFormatID K f = (K a OR K r) OR K FMT_CH_2_0" by blast
  then show ?thesis using layout_not_sentinel [OF assms(1)] by simp
qed


lemma example_layout: "sdk_layout example_table"
  by (simp add: sdk_layout_def field_def size_consts_def pcm_rate_consts_def dsd_rate_consts_def example_table_def)

text \<open>
  Claim C1. For every supported combination (encoding, bit depth or DSD rate,
  sample rate), \<open>buildFormatID\<close> returns a value that differs from the sentinel
  \<open>FMT_INVALID\<close> and from the value of every other supported combination; for
  every unsupported combination it returns the sentinel. The function is total:
  it has no failing branch. The SDK's constants are a parameter, assumed to be
  laid out as \<open>sdk_layout\<close> says.
\<close>

theorem buildFormatID_mapping:
  assumes "sdk_layout K"
  shows "(supported f \<longrightarrow>
            buildFormatID K f \<noteq> K FMT_INVALID \<and>
            (supported g \<and> \<not> same_combination f g \<longrightarrow>
               buildFormatID K g \<noteq> buildFormatID K f)) \<and>
         (\<not> supported h \<longrightarrow> buildFormatID K h = K FMT_INVALID)"
proof (intro conjI impI)
  assume "supported f"
  then show "buildFormatID K f \<noteq> K FMT_INVALID"
    using assms by (rule buildFormatID_not_sentinel [rotated])
next
  assume f: "supported f" and g: "supported g \<and> \<not> same_combination f g"
  show "buildFormatID K g \<noteq> buildFormatID K f"
  proof
    assume "buildFormatID K g = buildFormatID K f"
    then have "same_combination f g"
      using buildFormatID_injective [OF assms f, of g] g by simp
    with g show False by simp
  qed
next
  assume "\<not> supported h"
  then show "buildFormatID K h = K FMT_INVALID" by (rule buildFormatID_unsupported)
qed

theorem buildFormatID_mapping_witness:
  "sdk_layout example_table \<and>
   supported pcm_44100_16 \<and> supported dsd_64 \<and> \<not> same_combination pcm_44100_16 dsd_64 \<and>
   buildFormatID example_table pcm_44100_16 \<noteq> example_table FMT_INVALID \<and>
   buildFormatID example_table dsd_64 \<noteq> buildFormatID example_table pcm_44100_16 \<and>
   \<not> supported pcm_22050_16 \<and>
   buildFormatID example_table pcm_22050_16 = example_table FMT_INVALID"
proof -
  have 1: "supported pcm_44100_16" "supported dsd_64"
    by (simp_all add: supported_def pcm_44100_16_def dsd_64_def pcm_depths_def pcm_rates_def
        dsd_rates_def)
  have 2: "\<not> same_combination pcm_44100_16 dsd_64"
    by (simp add: same_combination_def pcm_44100_16_def dsd_64_def)
  have 3: "\<not> supported pcm_22050_16"
    by (simp add: supported_def pcm_22050_16_def pcm_depths_def pcm_rates_def)
  show ?thesis
    using buildFormatID_mapping [OF example_layout, of pcm_44100_16 dsd_64 pcm_22050_16]
      example_layout 1 2 3
    by simp
qed



section \<open>Effect of the members on the fields\<close>

lemma sb_fields [simp]:
  "m_targetAddress (sb cs s) = m_targetAddress s"
  "m_selectedTargetIndex (sb cs s) = m_selectedTargetIndex s"
  "m_currentFormat (sb cs s) = m_currentFormat s"
  "m_bufferSeconds (sb cs s) = m_bufferSeconds s"
  "m_playing (sb cs s) = m_playing s"
  "m_isPaused (sb cs s) = m_isPaused s"
  "m_thredMode (sb cs s) = m_thredMode s"
  "m_cycleTime (sb cs s) = m_cycleTime s"
  "m_cycleMinTime (sb cs s) = m_cycleMinTime s"
  "m_infoCycle (sb cs s) = m_infoCycle s"
  "m_mtu (sb cs s) = m_mtu s"
  "m_totalSamplesSent (sb cs s) = m_totalSamplesSent s"
  "sdk_calls (sb cs s) = sdk_calls s @ cs"
  by (simp_all add: sb_def)

lemma sb_Nil [simp]: "sb [] s = s"
  by (simp add: sb_def)

lemma sb_sb [simp]: "sb cs (sb bs s) = sb (bs @ cs) s"
  by (simp add: sb_def)

lemma new_calls_sb [simp]: "new_calls s (sb cs s) = cs"
  by (simp add: new_calls_def)

lemma new_calls_sb_update [simp]:
  "new_calls s ((sb cs s)\<lparr> m_isPaused := p \<rparr>) = cs"
  "new_calls s ((sb cs s)\<lparr> m_playing := q, m_isPaused := p \<rparr>) = cs"
  "new_calls s ((sb cs s)\<lparr> m_totalSamplesSent := n \<rparr>) = cs"
  by (simp_all add: new_calls_def)

lemma new_calls_same [simp]: "new_calls s s = []"
  by (simp add: new_calls_def)

section \<open>Target selection\<close>

text \<open>
  Claim C6. For every index that is negative or at least the number of
  discovered targets (zero targets included), \<open>selectTarget\<close> returns false and
  leaves the stored target index and target address as they were; the only effect
  is the discovery call \<open>find()\<close> on the SDK.
\<close>

theorem selectTarget_out_of_range:
  assumes "index < 0 \<or> index \<ge> find_result e"
  shows "selectTarget e index s = (False, sb [Sb_find] s) \<and>
         m_selectedTargetIndex (snd (selectTarget e index s)) = m_selectedTargetIndex s \<and>
         m_targetAddress (snd (selectTarget e index s)) = m_targetAddress s"
  using assms by (auto simp: selectTarget_def Let_def)

theorem selectTarget_out_of_range_witness:
  "find_result sdk_connects \<le> 5 \<and>
   selectTarget sdk_connects 5 DirettaOutputSimple_new =
     (False, sb [Sb_find] DirettaOutputSimple_new) \<and>
   m_selectedTargetIndex (snd (selectTarget sdk_connects 5 DirettaOutputSimple_new)) = - 1 \<and>
   m_targetAddress (snd (selectTarget sdk_connects 5 DirettaOutputSimple_new)) = []"
proof -
  have h: "5 < (0::int) \<or> 5 \<ge> find_result sdk_connects"
    by (simp add: sdk_connects_def)
  have "find_result sdk_connects \<le> 5" by (simp add: sdk_connects_def)
  then show ?thesis
    using selectTarget_out_of_range [OF h, of DirettaOutputSimple_new]
    by (simp add: DirettaOutputSimple_new_def)
qed

section \<open>Transfer configuration chosen by \<open>open\<close>\<close>

lemma transfer_modes_append: "transfer_modes (xs @ ys) = transfer_modes xs @ transfer_modes ys"
  by (induction xs rule: transfer_modes.induct) simp_all

lemma transfer_modes_replicate_is_connect: "transfer_modes (replicate n Sb_is_connect) = []"
  by (induction n) simp_all

lemma open_new_calls:
  assumes "0 \<le> m_selectedTargetIndex s"
  shows "new_calls s (snd (open e format b s)) =
     [Sb_open (m_thredMode s),
      Sb_setSink (m_targetAddress s) (if m_mtu s > 0 then m_mtu s else 16128),
      Sb_setSinkConfigure (buildFormatID (FormatID_of e) format),
      Sb_getSinkConfigure,
      (if isLowBitrate format
       then Sb_configTransferAuto (m_infoCycle s) (m_cycleMinTime s) (m_cycleTime s)
       else Sb_configTransferVarMax (m_infoCycle s)),
      Sb_setupBuffer (sampleRate format) b,
      Sb_connect]
     @ replicate (Suc (connect_wait (is_connect e) 0 0)) Sb_is_connect
     @ (if fst (open e format b s) then [Sb_play] else [])"
  using assms by (simp add: open_def Let_def new_calls_def sb_def)

text \<open>
  Claim C8. When \<open>open\<close> gets past its target check it configures the transfer
  exactly once, and the mode is a function of the format's bit depth, sample rate
  and encoding alone: small packets (\<open>configTransferAuto\<close>) exactly when
  \<open>bitDepth \<le> 16\<close>, \<open>sampleRate \<le> 48000\<close> and the encoding is PCM, large packets
  (\<open>configTransferVarMax\<close>) otherwise.
\<close>

theorem open_transfer_mode:
  assumes "0 \<le> m_selectedTargetIndex s"
  shows "transfer_modes (new_calls s (snd (open e format bufferSeconds s))) =
           [if bitDepth format \<le> 16 \<and> sampleRate format \<le> 48000 \<and> \<not> isDSD format
            then SmallPacket else LargePacket]"
  by (simp add: open_new_calls [OF assms] transfer_modes_append
      transfer_modes_replicate_is_connect isLowBitrate_def)


lemma connect_wait_connects: "connect_wait (\<lambda>n. True) 0 0 = 1"
  by (simp add: connect_wait.simps)

lemma connect_wait_never: "connect_wait (\<lambda>n. False) 0 0 = 101"
  by (simp add: connect_wait.simps)

lemma selected_state_fields:
  "m_selectedTargetIndex selected_state = 0"
  "m_playing selected_state = False"
  "m_isPaused selected_state = False"
  "m_currentFormat selected_state = \<lparr> sampleRate = 0, bitDepth = 0, channels = 0, isDSD = False \<rparr>"
  by (simp_all add: selected_state_def selectTarget_def sdk_connects_def Let_def
      DirettaOutputSimple_new_def)

lemma open_fields:
  assumes "0 \<le> m_selectedTargetIndex s"
  shows "fst (open e format b s) = is_connect e (connect_wait (is_connect e) 0 0)"
    and "m_currentFormat (snd (open e format b s)) = format"
    and "m_bufferSeconds (snd (open e format b s)) = b"
    and "m_selectedTargetIndex (snd (open e format b s)) = m_selectedTargetIndex s"
    and "m_targetAddress (snd (open e format b s)) = m_targetAddress s"
    and "m_playing (snd (open e format b s)) = (m_playing s \<or> fst (open e format b s))"
    and "m_isPaused (snd (open e format b s)) = (m_isPaused s \<and> \<not> fst (open e format b s))"
    and "m_totalSamplesSent (snd (open e format b s)) =
           (if fst (open e format b s) then 0 else m_totalSamplesSent s)"
  using assms by (simp_all add: open_def Let_def)

lemma open_unselected:
  "m_selectedTargetIndex s < 0 \<Longrightarrow> open e format b s = (False, s)"
  by (simp add: open_def)

lemma playing_state_fields:
  "m_selectedTargetIndex playing_state = 0"
  "m_playing playing_state = True"
  "m_isPaused playing_state = False"
  "m_currentFormat playing_state = pcm_44100_16"
  "m_totalSamplesSent playing_state = 0"
  by (simp_all add: playing_state_def open_fields selected_state_fields sdk_connects_def
      connect_wait_connects)

lemma paused_state_fields:
  "m_selectedTargetIndex paused_state = 0"
  "m_playing paused_state = True"
  "m_isPaused paused_state = True"
  "m_currentFormat paused_state = pcm_44100_16"
  by (simp_all add: paused_state_def pause_def playing_state_fields)

theorem open_transfer_mode_witness:
  "0 \<le> m_selectedTargetIndex selected_state \<and>
   transfer_modes (new_calls selected_state (snd (open sdk_connects pcm_44100_16 2 selected_state)))
     = [SmallPacket] \<and>
   transfer_modes (new_calls selected_state (snd (open sdk_connects pcm_96000_24 2 selected_state)))
     = [LargePacket]"
proof -
  have h: "0 \<le> m_selectedTargetIndex selected_state" by (simp add: selected_state_fields)
  show ?thesis
    using h open_transfer_mode [OF h, of sdk_connects pcm_44100_16 2]
      open_transfer_mode [OF h, of sdk_connects pcm_96000_24 2]
    by (simp add: pcm_44100_16_def pcm_96000_24_def)
qed

section \<open>Pause and resume\<close>

text \<open>
  Claim C9 says that \<open>pause()\<close> followed by \<open>resume()\<close> leaves the paused flag as
  it was in any state. In a playing, already paused adapter \<open>pause()\<close> does nothing
  and \<open>resume()\<close> clears the flag.
\<close>

theorem pause_resume_counterexample:
  "m_isPaused (resume (pause paused_state)) \<noteq> m_isPaused paused_state"
  by (simp add: pause_def resume_def paused_state_fields)

text \<open>
  Claim C9, amended. In any state \<open>pause()\<close> followed by \<open>resume()\<close> leaves the
  delivered-sample count and the playing flag as they were; the paused flag is as
  it was unless the adapter was playing and already paused, in which case it is
  cleared. \<open>pause()\<close> when already paused or not playing, and \<open>resume()\<close> when not
  paused or not playing, change nothing.
\<close>

theorem pause_resume:
  "m_totalSamplesSent (resume (pause s)) = m_totalSamplesSent s \<and>
   m_playing (resume (pause s)) = m_playing s \<and>
   m_isPaused (resume (pause s)) = (m_isPaused s \<and> \<not> m_playing s) \<and>
   (m_isPaused s \<or> \<not> m_playing s \<longrightarrow> pause s = s) \<and>
   (\<not> m_isPaused s \<or> \<not> m_playing s \<longrightarrow> resume s = s)"
  by (auto simp: pause_def resume_def)

theorem pause_resume_witness:
  "\<not> m_playing selected_state \<and> \<not> m_isPaused selected_state \<and>
   pause selected_state = selected_state \<and> resume selected_state = selected_state \<and>
   m_playing paused_state \<and> m_isPaused paused_state \<and>
   pause paused_state = paused_state \<and>
   m_totalSamplesSent (resume (pause paused_state)) = m_totalSamplesSent paused_state \<and>
   m_playing (resume (pause paused_state)) = m_playing paused_state \<and>
   m_isPaused (resume (pause paused_state)) = False"
proof -
  have 1: "\<not> m_playing selected_state" "\<not> m_isPaused selected_state"
    "m_playing paused_state" "m_isPaused paused_state"
    by (simp_all add: selected_state_fields paused_state_fields)
  from pause_resume [of selected_state] 1
  have 2: "pause selected_state = selected_state" "resume selected_state = selected_state"
    by blast+
  from pause_resume [of paused_state] 1
  have 3: "pause paused_state = paused_state"
    "m_totalSamplesSent (resume (pause paused_state)) = m_totalSamplesSent paused_state"
    "m_playing (resume (pause paused_state)) = m_playing paused_state"
    "m_isPaused (resume (pause paused_state)) = False"
    by blast+
  from 1 2 3 show ?thesis by blast
qed

section \<open>Format change\<close>

lemma changeFormat_fields:
  assumes "0 \<le> m_selectedTargetIndex s"
  shows "fst (changeFormat e newFormat s) = is_connect e (connect_wait (is_connect e) 0 0)"
    and "m_currentFormat (snd (changeFormat e newFormat s)) = newFormat"
    and "m_bufferSeconds (snd (changeFormat e newFormat s)) = m_bufferSeconds s"
    and "m_selectedTargetIndex (snd (changeFormat e newFormat s)) = m_selectedTargetIndex s"
    and "m_targetAddress (snd (changeFormat e newFormat s)) = m_targetAddress s"
    and "m_playing (snd (changeFormat e newFormat s)) =
           (m_playing s \<or> fst (changeFormat e newFormat s))"
    and "m_isPaused (snd (changeFormat e newFormat s)) =
           (m_isPaused s \<and> \<not> fst (changeFormat e newFormat s))"
  using assms by (simp_all add: changeFormat_def disconnectFromTarget_def open_fields)

lemma changeFormat_unselected:
  assumes "m_selectedTargetIndex s < 0"
  shows "fst (changeFormat e newFormat s) = False"
    and "m_currentFormat (snd (changeFormat e newFormat s)) = m_currentFormat s"
    and "m_selectedTargetIndex (snd (changeFormat e newFormat s)) = m_selectedTargetIndex s"
    and "m_playing (snd (changeFormat e newFormat s)) = m_playing s"
    and "m_isPaused (snd (changeFormat e newFormat s)) = m_isPaused s"
  using assms by (simp_all add: changeFormat_def disconnectFromTarget_def open_unselected)





section \<open>Invariants of the adapter over histories\<close>

lemma api_run_Nil: "api_run [] = ([], DirettaOutputSimple_new)"
  by (simp add: api_run_def)

lemma api_run_snoc: "api_run (cs @ [ec]) = api_next (api_run cs) ec"
  by (simp add: api_run_def)

lemma api_next_eq:
  "api_next (h, s) (e, c) = ((c, fst (api_step e c s)) # h, snd (api_step e c s))"
  by (simp add: api_next_def split: prod.splits)

lemma select_succeeded_Cons:
  "select_succeeded ((c, r) # h) =
     ((\<exists>index. c = SelectTarget index \<and> r = Some True) \<or> select_succeeded h)"
  by (cases "((c, r) # h)" rule: select_succeeded.cases) auto

lemma selectTarget_fields:
  "m_playing (snd (selectTarget e index s)) = m_playing s"
  "m_isPaused (snd (selectTarget e index s)) = m_isPaused s"
  "m_currentFormat (snd (selectTarget e index s)) = m_currentFormat s"
  "m_selectedTargetIndex (snd (selectTarget e index s)) =
     (if fst (selectTarget e index s) then index else m_selectedTargetIndex s)"
  by (auto simp: selectTarget_def Let_def)

lemma selectTarget_nonneg: "fst (selectTarget e index s) \<Longrightarrow> 0 \<le> index"
  by (auto simp: selectTarget_def Let_def split: if_splits)

lemma sendAudio_fields:
  "m_playing (snd (sendAudio n s)) = m_playing s"
  "m_isPaused (snd (sendAudio n s)) = m_isPaused s"
  "m_currentFormat (snd (sendAudio n s)) = m_currentFormat s"
  "m_selectedTargetIndex (snd (sendAudio n s)) = m_selectedTargetIndex s"
  by (simp_all add: sendAudio_def)

lemma simple_member_fields:
  "m_selectedTargetIndex (pause s) = m_selectedTargetIndex s"
  "m_selectedTargetIndex (resume s) = m_selectedTargetIndex s"
  "m_selectedTargetIndex (close s) = m_selectedTargetIndex s"
  "m_selectedTargetIndex (listAvailableTargets e s) = m_selectedTargetIndex s"
  "m_currentFormat (pause s) = m_currentFormat s"
  "m_currentFormat (resume s) = m_currentFormat s"
  "m_currentFormat (close s) = m_currentFormat s"
  "m_currentFormat (listAvailableTargets e s) = m_currentFormat s"
  "m_playing (pause s) = m_playing s"
  "m_playing (resume s) = m_playing s"
  "m_playing (close s) = False"
  "m_playing (listAvailableTargets e s) = m_playing s"
  "m_isPaused (close s) = False \<or> \<not> m_playing s"
  "m_isPaused (listAvailableTargets e s) = m_isPaused s"
  by (simp_all add: pause_def resume_def close_def listAvailableTargets_def Let_def
      disconnectFromTarget_def)

lemma setter_fields:
  "m_selectedTargetIndex (setThredMode x s) = m_selectedTargetIndex s"
  "m_selectedTargetIndex (setCycleTime x s) = m_selectedTargetIndex s"
  "m_selectedTargetIndex (setCycleMinTime x s) = m_selectedTargetIndex s"
  "m_selectedTargetIndex (setInfoCycle x s) = m_selectedTargetIndex s"
  "m_selectedTargetIndex (setMTU x s) = m_selectedTargetIndex s"
  "m_currentFormat (setThredMode x s) = m_currentFormat s"
  "m_currentFormat (setCycleTime x s) = m_currentFormat s"
  "m_currentFormat (setCycleMinTime x s) = m_currentFormat s"
  "m_currentFormat (setInfoCycle x s) = m_currentFormat s"
  "m_currentFormat (setMTU x s) = m_currentFormat s"
  "m_playing (setThredMode x s) = m_playing s"
  "m_playing (setCycleTime x s) = m_playing s"
  "m_playing (setCycleMinTime x s) = m_playing s"
  "m_playing (setInfoCycle x s) = m_playing s"
  "m_playing (setMTU x s) = m_playing s"
  "m_isPaused (setThredMode x s) = m_isPaused s"
  "m_isPaused (setCycleTime x s) = m_isPaused s"
  "m_isPaused (setCycleMinTime x s) = m_isPaused s"
  "m_isPaused (setInfoCycle x s) = m_isPaused s"
  "m_isPaused (setMTU x s) = m_isPaused s"
  by (simp_all add: setThredMode_def setCycleTime_def setCycleMinTime_def setInfoCycle_def
      setMTU_def)

lemma api_step_playing':
  "m_playing (snd (api_step e c s)) =
     (case c of
        Open format b \<Rightarrow> m_playing s \<or> fst (api_step e c s) = Some True
      | ChangeFormat format \<Rightarrow> m_playing s \<or> fst (api_step e c s) = Some True
      | Close \<Rightarrow> False
      | _ \<Rightarrow> m_playing s)"
proof (cases "m_selectedTargetIndex s < 0")
  case True
  then show ?thesis
    by (cases c)
      (simp_all add: split_beta selectTarget_fields sendAudio_fields simple_member_fields
        setter_fields open_unselected changeFormat_unselected)
next
  case False
  then have "0 \<le> m_selectedTargetIndex s" by simp
  then show ?thesis
    by (cases c)
      (simp_all add: split_beta selectTarget_fields sendAudio_fields simple_member_fields
        setter_fields open_fields changeFormat_fields)
qed

lemma api_step_playing:
  assumes "api_step e c s = (r, s')"
  shows "m_playing s' =
     (case c of
        Open format b \<Rightarrow> m_playing s \<or> r = Some True
      | ChangeFormat format \<Rightarrow> m_playing s \<or> r = Some True
      | Close \<Rightarrow> False
      | _ \<Rightarrow> m_playing s)"
  using api_step_playing' [of e c s] unfolding assms fst_conv snd_conv .

lemma api_step_selected':
  "m_selectedTargetIndex (snd (api_step e c s)) =
     (case c of
        SelectTarget index \<Rightarrow>
          if fst (api_step e c s) = Some True then index else m_selectedTargetIndex s
      | _ \<Rightarrow> m_selectedTargetIndex s)"
proof (cases "m_selectedTargetIndex s < 0")
  case True
  then show ?thesis
    by (cases c)
      (simp_all add: split_beta selectTarget_fields sendAudio_fields simple_member_fields
        setter_fields open_unselected changeFormat_unselected)
next
  case False
  then have "0 \<le> m_selectedTargetIndex s" by simp
  then show ?thesis
    by (cases c)
      (simp_all add: split_beta selectTarget_fields sendAudio_fields simple_member_fields
        setter_fields open_fields changeFormat_fields)
qed

lemma api_step_selected:
  assumes "api_step e c s = (r, s')"
  shows "m_selectedTargetIndex s' =
     (case c of
        SelectTarget index \<Rightarrow> if r = Some True then index else m_selectedTargetIndex s
      | _ \<Rightarrow> m_selectedTargetIndex s)"
  using api_step_selected' [of e c s] unfolding assms fst_conv snd_conv .

lemma api_step_select_nonneg:
  assumes "api_step e c s = (r, s')"
  shows "case c of SelectTarget index \<Rightarrow> r = Some True \<longrightarrow> 0 \<le> index | _ \<Rightarrow> True"
  using assms by (cases c) (auto simp: split_beta selectTarget_nonneg)

lemma api_step_format':
  "m_currentFormat (snd (api_step e c s)) =
     (case c of
        Open format b \<Rightarrow> if m_selectedTargetIndex s < 0 then m_currentFormat s else format
      | ChangeFormat format \<Rightarrow> if m_selectedTargetIndex s < 0 then m_currentFormat s else format
      | _ \<Rightarrow> m_currentFormat s)"
proof (cases "m_selectedTargetIndex s < 0")
  case True
  then show ?thesis
    by (cases c)
      (simp_all add: split_beta selectTarget_fields sendAudio_fields simple_member_fields
        setter_fields open_unselected changeFormat_unselected)
next
  case False
  then have "0 \<le> m_selectedTargetIndex s" by simp
  then show ?thesis
    by (cases c)
      (simp_all add: split_beta selectTarget_fields sendAudio_fields simple_member_fields
        setter_fields open_fields changeFormat_fields)
qed

lemma api_step_format:
  assumes "api_step e c s = (r, s')"
  shows "m_currentFormat s' =
     (case c of
        Open format b \<Rightarrow> if m_selectedTargetIndex s < 0 then m_currentFormat s else format
      | ChangeFormat format \<Rightarrow> if m_selectedTargetIndex s < 0 then m_currentFormat s else format
      | _ \<Rightarrow> m_currentFormat s)"
  using api_step_format' [of e c s] unfolding assms fst_conv snd_conv .

lemma api_step_open_result:
  assumes "api_step e c s = (r, s')" "m_selectedTargetIndex s < 0"
  shows "case c of Open format b \<Rightarrow> r = Some False
                 | ChangeFormat format \<Rightarrow> r = Some False
                 | _ \<Rightarrow> True"
  using assms by (cases c) (auto simp: split_beta open_unselected changeFormat_unselected)

lemma api_step_paused:
  assumes "api_step e c s = (r, s')" "m_isPaused s'"
  shows "m_isPaused s \<or> c = Pause \<and> m_playing s"
proof (cases "m_selectedTargetIndex s < 0")
  case True
  with assms show ?thesis
    by (cases c)
      (auto simp: split_beta selectTarget_fields sendAudio_fields simple_member_fields
        setter_fields open_unselected changeFormat_unselected pause_def resume_def close_def
        split: if_splits)
next
  case False
  then have "0 \<le> m_selectedTargetIndex s" by simp
  with assms show ?thesis
    by (cases c)
      (auto simp: split_beta selectTarget_fields sendAudio_fields simple_member_fields
        setter_fields open_fields changeFormat_fields pause_def resume_def close_def
        split: if_splits)
qed

lemma api_run_snoc_cases:
  assumes "api_run (cs @ [ec]) = (h, s)"
  shows "\<exists>h0 s0 e c r. api_run cs = (h0, s0) \<and> ec = (e, c) \<and>
           api_step e c s0 = (r, s) \<and> h = (c, r) # h0"
proof -
  obtain h0 s0 where run: "api_run cs = (h0, s0)" by (cases "api_run cs")
  obtain e c where ec: "ec = (e, c)" by (cases ec)
  obtain r s' where st: "api_step e c s0 = (r, s')" by (cases "api_step e c s0")
  from assms run ec st have "h = (c, r) # h0" "s = s'"
    by (simp_all add: api_run_snoc api_next_eq)
  with run ec st show ?thesis by blast
qed

lemma unselected_invariant:
  assumes "api_run cs = (h, s)" "\<not> select_succeeded h"
  shows "m_selectedTargetIndex s = - 1 \<and> \<not> m_playing s \<and> \<not> m_isPaused s"
  using assms
proof (induction cs arbitrary: h s rule: rev_induct)
  case Nil
  then show ?case by (auto simp: api_run_Nil DirettaOutputSimple_new_def)
next
  case (snoc ec cs)
  from api_run_snoc_cases [OF snoc.prems(1)] obtain h0 s0 e c r where
    run: "api_run cs = (h0, s0)" and st: "api_step e c s0 = (r, s)" and h: "h = (c, r) # h0"
    by blast
  from snoc.prems(2) h
  have no: "\<not> (\<exists>index. c = SelectTarget index \<and> r = Some True)"
    and "\<not> select_succeeded h0"
    by (simp_all add: select_succeeded_Cons)
  with snoc.IH run
  have IH: "m_selectedTargetIndex s0 = - 1" "\<not> m_playing s0" "\<not> m_isPaused s0" by blast+
  have 1: "m_selectedTargetIndex s = - 1"
    using no IH(1) unfolding api_step_selected [OF st] by (cases c) auto
  have 2: "\<not> m_playing s"
    using IH(1,2) api_step_open_result [OF st] unfolding api_step_playing [OF st]
    by (cases c) simp_all
  have 3: "\<not> m_isPaused s"
    using IH(2,3) api_step_paused [OF st] by blast
  from 1 2 3 show ?case by simp
qed

lemma last_opened_Cons:
  "last_opened ((c, r) # h) =
     (case c of
        Open format b \<Rightarrow> Some format
      | ChangeFormat format \<Rightarrow> Some format
      | _ \<Rightarrow> last_opened h)"
  by (cases "((c, r) # h)" rule: last_opened.cases) auto

lemma format_invariant:
  assumes "api_run cs = (h, s)" "m_playing s"
  shows "0 \<le> m_selectedTargetIndex s \<and> last_opened h = Some (m_currentFormat s)"
  using assms
proof (induction cs arbitrary: h s rule: rev_induct)
  case Nil
  then show ?case by (auto simp: api_run_Nil DirettaOutputSimple_new_def)
next
  case (snoc ec cs)
  from api_run_snoc_cases [OF snoc.prems(1)] obtain h0 s0 e c r where
    run: "api_run cs = (h0, s0)" and st: "api_step e c s0 = (r, s)" and h: "h = (c, r) # h0"
    by blast
  from snoc.IH run
  have IH: "m_playing s0 \<Longrightarrow>
              0 \<le> m_selectedTargetIndex s0 \<and> last_opened h0 = Some (m_currentFormat s0)"
    by blast
  note p = snoc.prems(2) [unfolded api_step_playing [OF st]]
  show ?case
  proof (cases "m_selectedTargetIndex s0 < 0")
    case True
    then have np: "\<not> m_playing s0" using IH by auto
    from p np api_step_open_result [OF st True] have False
      by (cases c) simp_all
    then show ?thesis ..
  next
    case False
    then have sel: "0 \<le> m_selectedTargetIndex s0" by simp
    have 1: "0 \<le> m_selectedTargetIndex s"
      unfolding api_step_selected [OF st] using sel api_step_select_nonneg [OF st]
      by (cases c) auto
    have 2: "last_opened h = Some (m_currentFormat s)"
      unfolding h api_step_format [OF st] last_opened_Cons
      using False IH p
      by (cases c) auto
    from 1 2 show ?thesis by simp
  qed
qed

section \<open>Sizes\<close>

lemma unat_u8_bound: "unat (w :: u8) \<le> 255"
proof -
  have "unat w < 2 ^ LENGTH(8)" by (rule unsigned_less)
  then show ?thesis by simp
qed

lemma unat_ucast_u8_u64: "unat (ucast (w :: u8) :: u64) = unat w"
proof -
  have "unat w < 2 ^ 64" using unat_u8_bound [of w] by simp
  then show ?thesis by (simp add: unsigned_ucast_eq take_bit_nat_eq_self)
qed

lemma bytesPerSample_bound:
  "(unat (b :: u8) div 8) * unat (c :: u8) \<le> 7905"
proof -
  have "unat b div 8 \<le> 31" using unat_u8_bound [of b] by simp
  moreover have "unat c \<le> 255" by (rule unat_u8_bound)
  ultimately have "(unat b div 8) * unat c \<le> 31 * 255" by (rule mult_le_mono)
  then show ?thesis by simp
qed

lemma unat_word_of_nat_small:
  assumes "k \<le> 7905"
  shows "unat (word_of_nat k :: u64) = k"
proof -
  have "k < 2 ^ LENGTH(64)" using assms by simp
  then show ?thesis by (simp only: unat_of_nat mod_less)
qed

lemma unat_bytes_per_frame:
  "unat (bytes_per_frame format) = (unat (bitDepth format) div 8) * unat (channels format)"
  unfolding bytes_per_frame_def
  by (rule unat_word_of_nat_small) (rule bytesPerSample_bound)

lemma ucast_div8: "(ucast ((b :: u8) div 8) :: u64) = word_of_nat (unat b div 8)"
proof -
  have "unat (b div 8) = unat b div 8" by (simp add: unat_div)
  then show ?thesis by (metis of_nat_unat)
qed

lemma dataSize_word:
  "dataSize format numSamples =
     (if isDSD format then numSamples * ucast (channels format) div 8
      else numSamples * ucast (channels format) * ucast (bitDepth format div 8))"
  by (simp add: dataSize_def Let_def ucast_div8 mult_ac)

lemma unat_dataSize:
  assumes "unat numSamples * unat (channels format) *
             (if isDSD format then 1 else unat (bitDepth format) div 8) < 2 ^ 64"
  shows "unat (dataSize format numSamples) = claimed_bytes format (unat numSamples)"
proof (cases "isDSD format")
  case True
  with assms have "unat numSamples * unat (ucast (channels format) :: u64) < 2 ^ LENGTH(64)"
    by (simp add: unat_ucast_u8_u64)
  then have "unat (numSamples * (ucast (channels format) :: u64)) =
               unat numSamples * unat (ucast (channels format) :: u64)"
    by (simp only: unat_mult_lem)
  with True show ?thesis
    by (simp add: dataSize_def claimed_bytes_def unat_div unat_ucast_u8_u64)
next
  case False
  define k where "k = (unat (bitDepth format) div 8) * unat (channels format)"
  define kw where "kw = (word_of_nat k :: u64)"
  have k: "unat kw = k"
    unfolding kw_def k_def by (rule unat_word_of_nat_small) (rule bytesPerSample_bound)
  from False assms have "unat numSamples * unat kw < 2 ^ LENGTH(64)"
    unfolding k by (simp add: k_def mult_ac)
  then have "unat (numSamples * kw) = unat numSamples * unat kw"
    by (simp only: unat_mult_lem)
  moreover have "dataSize format numSamples = numSamples * kw"
    using False unfolding dataSize_def kw_def k_def Let_def by simp
  ultimately show ?thesis
    using False by (simp add: claimed_bytes_def k k_def mult_ac)
qed

lemma unat_pump_num_samples:
  assumes "0 < bytes_read" "bytes_read \<le> uint (buffer_size format)"
    and "bytes_per_frame format \<noteq> 0"
  shows "unat (pump_num_samples format bytes_read) = claimed_num_samples format (nat bytes_read)"
proof -
  define bpf where "bpf = (unat (bitDepth format) div 8) * unat (channels format)"
  define q where "q = (word_of_int bytes_read :: u64) div bytes_per_frame format"
  define c where "c = (ucast (channels format) :: u64)"
  have bpf: "unat (bytes_per_frame format) = bpf"
    unfolding bpf_def by (rule unat_bytes_per_frame)
  have bpf_le: "bpf \<le> 7905" unfolding bpf_def by (rule bytesPerSample_bound)
  have c: "unat c = unat (channels format)" unfolding c_def by (rule unat_ucast_u8_u64)
  have "unat CHUNK_SIZE * unat (bytes_per_frame format) < 2 ^ LENGTH(64)"
    using bpf_le by (simp add: CHUNK_SIZE_def bpf)
  then have "unat (CHUNK_SIZE * bytes_per_frame format) = unat CHUNK_SIZE * unat (bytes_per_frame format)"
    by (simp only: unat_mult_lem)
  then have bs: "unat (buffer_size format) = 8192 * bpf"
    by (simp add: buffer_size_def CHUNK_SIZE_def bpf)
  have "uint (buffer_size format) = int (8192 * bpf)"
    using bs by (metis of_nat_unat uint_nat)
  with assms(2) have le: "nat bytes_read \<le> 8192 * bpf" by linarith
  have "bytes_read < 2 ^ 64"
    using le bpf_le assms(1) by simp
  with assms(1) have br: "unat (word_of_int bytes_read :: u64) = nat bytes_read"
    by (simp add: unat_eq_nat_uint uint_word_of_int)
  have q: "unat q = nat bytes_read div bpf"
    unfolding q_def by (simp add: unat_div br bpf)
  have "nat bytes_read div bpf \<le> (8192 * bpf) div bpf" using le by (rule div_le_mono)
  also have "\<dots> \<le> 8192" by (cases "bpf = 0") simp_all
  finally have quot: "unat q \<le> 8192" unfolding q .
  have "unat q * unat c \<le> 8192 * 255"
    using quot unat_u8_bound [of "channels format"] unfolding c by (rule mult_le_mono)
  then have "unat q * unat c < 2 ^ LENGTH(64)" by simp
  then have "unat (q * c) = unat q * unat c" by (simp only: unat_mult_lem)
  then show ?thesis
    by (simp add: pump_num_samples_def claimed_num_samples_def q c flip: q_def c_def bpf_def)
qed

section \<open>\<open>open\<close> before any target is selected\<close>

lemma api_run_calls_no_target:
  "api_run calls_no_target =
     ([(SetMTU 9000, None), (SelectTarget 3, Some False), (SelectTarget 0, Some False)],
      setMTU 9000 (sb [Sb_find, Sb_find] DirettaOutputSimple_new))"
  by (simp add: api_run_def api_next_def calls_no_target_def selectTarget_def Let_def
      sdk_no_target_def sdk_connects_def)

lemma api_run_calls_playing:
  "api_run calls_playing =
     ([(Open pcm_44100_16 2, Some True), (SelectTarget 0, Some True)], playing_state)"
proof -
  have 1: "selectTarget sdk_connects 0 DirettaOutputSimple_new = (True, selected_state)"
    by (simp add: selected_state_def selectTarget_def Let_def sdk_connects_def)
  have "fst (open sdk_connects pcm_44100_16 2 selected_state)"
    by (simp add: open_fields selected_state_fields sdk_connects_def connect_wait_connects)
  then have 2: "open sdk_connects pcm_44100_16 2 selected_state = (True, playing_state)"
    by (simp add: playing_state_def prod_eq_iff)
  show ?thesis
    by (simp add: api_run_def api_next_def calls_playing_def 1 2)
qed

text \<open>
  Claim C10. As long as no \<open>selectTarget\<close> has returned true since construction,
  \<open>open\<close> returns false for every format and buffer length, makes no call on the
  SDK (no negotiation, no buffer setup, no connection) and leaves the adapter as
  it was, which is not playing and not paused.
\<close>

theorem open_before_selectTarget:
  assumes "api_run cs = (h, s)" and "\<not> select_succeeded h"
  shows "open e format bufferSeconds s = (False, s) \<and>
         new_calls s (snd (open e format bufferSeconds s)) = [] \<and>
         \<not> m_playing s \<and> \<not> m_isPaused s"
proof -
  from unselected_invariant [OF assms]
  have "m_selectedTargetIndex s < 0" "\<not> m_playing s" "\<not> m_isPaused s" by simp_all
  then show ?thesis by (simp add: open_unselected)
qed

theorem open_before_selectTarget_witness:
  "\<not> select_succeeded (fst (api_run calls_no_target)) \<and>
   open sdk_connects pcm_44100_16 2 (snd (api_run calls_no_target)) =
     (False, snd (api_run calls_no_target)) \<and>
   new_calls (snd (api_run calls_no_target))
     (snd (open sdk_connects pcm_44100_16 2 (snd (api_run calls_no_target)))) = [] \<and>
   \<not> m_playing (snd (api_run calls_no_target)) \<and>
   \<not> m_isPaused (snd (api_run calls_no_target))"
proof -
  have 1: "api_run calls_no_target = (fst (api_run calls_no_target), snd (api_run calls_no_target))"
    by simp
  have 2: "\<not> select_succeeded (fst (api_run calls_no_target))"
    by (simp add: api_run_calls_no_target)
  show ?thesis
    using 2 open_before_selectTarget [OF 1 2, of sdk_connects pcm_44100_16 2] by blast
qed

section \<open>Audio after a failed format change\<close>

lemma sendAudio_not_playing: "\<not> m_playing s \<Longrightarrow> sendAudio numSamples s = (False, s)"
  by (simp add: sendAudio_def)

lemma sendAudio_result: "fst (sendAudio numSamples s) = m_playing s"
  by (simp add: sendAudio_def)

lemma sendAudio_new_calls:
  "new_calls s (snd (sendAudio numSamples s)) =
     (if m_playing s \<and> \<not> m_isPaused s
      then [Sb_setStream (dataSize (m_currentFormat s) numSamples)] else [])"
  by (simp add: sendAudio_def)

lemma open_sdk_calls:
  assumes "0 \<le> m_selectedTargetIndex s"
  shows "sdk_calls (snd (open e format b s)) =
     sdk_calls s @
     [Sb_open (m_thredMode s),
      Sb_setSink (m_targetAddress s) (if m_mtu s > 0 then m_mtu s else 16128),
      Sb_setSinkConfigure (buildFormatID (FormatID_of e) format),
      Sb_getSinkConfigure,
      (if isLowBitrate format
       then Sb_configTransferAuto (m_infoCycle s) (m_cycleMinTime s) (m_cycleTime s)
       else Sb_configTransferVarMax (m_infoCycle s)),
      Sb_setupBuffer (sampleRate format) b,
      Sb_connect]
     @ replicate (Suc (connect_wait (is_connect e) 0 0)) Sb_is_connect
     @ (if fst (open e format b s) then [Sb_play] else [])"
  using assms by (simp add: open_def Let_def sb_def)

lemma playing_state_config:
  "m_thredMode playing_state = 1"
  "m_targetAddress playing_state = ''192.168.1.50''"
  "m_mtu playing_state = 0"
  "m_infoCycle playing_state = 5000"
  "m_bufferSeconds playing_state = 2"
  by (simp_all add: playing_state_def selected_state_def open_def selectTarget_def Let_def
      sdk_connects_def DirettaOutputSimple_new_def connect_wait_connects)

lemma pcm_96000_24_facts:
  "buildFormatID example_table pcm_96000_24 = 322"
  "\<not> isLowBitrate pcm_96000_24"
  "dataSize pcm_96000_24 4096 = 24576"
  "sampleRate pcm_96000_24 = 96000"
  by (simp_all add: buildFormatID_def pcm_depth_switch_def pcm_rate_switch_def example_table_def
      isLowBitrate_def dataSize_def pcm_96000_24_def)

lemma failed_change_calls:
  "new_calls playing_state (snd (changeFormat sdk_never_connects pcm_96000_24 playing_state)) =
     [Sb_stop, Sb_disconnect, Sb_close, Sb_open 1, Sb_setSink ''192.168.1.50'' 16128,
      Sb_setSinkConfigure 322, Sb_getSinkConfigure, Sb_configTransferVarMax 5000,
      Sb_setupBuffer 96000 2, Sb_connect] @ replicate 102 Sb_is_connect"
proof -
  let ?s1 = "sb [Sb_stop, Sb_disconnect, Sb_close] playing_state"
  have cf: "changeFormat sdk_never_connects pcm_96000_24 playing_state =
              open sdk_never_connects pcm_96000_24 2 ?s1"
    by (simp add: changeFormat_def disconnectFromTarget_def playing_state_fields
        playing_state_config)
  have sel: "0 \<le> m_selectedTargetIndex ?s1" by (simp add: playing_state_fields)
  have nc: "\<not> fst (open sdk_never_connects pcm_96000_24 2 ?s1)"
    by (simp add: open_fields [OF sel] sdk_never_connects_def connect_wait_never)
  show ?thesis
    unfolding cf new_calls_def open_sdk_calls [OF sel]
    using nc
    by (simp add: playing_state_config pcm_96000_24_facts sdk_never_connects_def
        sdk_connects_def connect_wait_never)
qed

lemma api_run_calls_failed_change:
  "api_run calls_failed_change =
     ([(ChangeFormat pcm_96000_24, Some False), (Open pcm_44100_16 2, Some True),
       (SelectTarget 0, Some True)],
      snd (changeFormat sdk_never_connects pcm_96000_24 playing_state))"
proof -
  have "fst (changeFormat sdk_never_connects pcm_96000_24 playing_state) = False"
    by (simp add: changeFormat_fields playing_state_fields sdk_never_connects_def
        connect_wait_never)
  then show ?thesis
    unfolding calls_failed_change_def api_run_snoc api_run_calls_playing
    by (simp add: api_next_def split_beta)
qed

text \<open>
  Claim C7 says that audio reaches the target only while the adapter is
  connected. On the code it fails: after \<open>selectTarget(0)\<close> and a successful
  \<open>open\<close>, a \<open>changeFormat\<close> whose target never reports connected stops,
  disconnects and closes the SDK object, re-opens it, waits out the timeout and
  returns false with no \<open>play()\<close>; \<open>m_playing\<close> is still set, and the next
  \<open>sendAudio\<close> hands a stream to the target.
\<close>

theorem sendAudio_after_failed_changeFormat:
  "fst (api_run calls_failed_change) =
     [(ChangeFormat pcm_96000_24, Some False), (Open pcm_44100_16 2, Some True),
      (SelectTarget 0, Some True)] \<and>
   new_calls (snd (api_run calls_playing)) (snd (api_run calls_failed_change)) =
     [Sb_stop, Sb_disconnect, Sb_close, Sb_open 1, Sb_setSink ''192.168.1.50'' 16128,
      Sb_setSinkConfigure 322, Sb_getSinkConfigure, Sb_configTransferVarMax 5000,
      Sb_setupBuffer 96000 2, Sb_connect] @ replicate 102 Sb_is_connect \<and>
   m_playing (snd (api_run calls_failed_change)) \<and>
   fst (sendAudio 4096 (snd (api_run calls_failed_change))) \<and>
   new_calls (snd (api_run calls_failed_change))
     (snd (sendAudio 4096 (snd (api_run calls_failed_change)))) = [Sb_setStream 24576]"
proof -
  let ?s = "snd (changeFormat sdk_never_connects pcm_96000_24 playing_state)"
  have sel: "0 \<le> m_selectedTargetIndex playing_state" by (simp add: playing_state_fields)
  have f: "fst (changeFormat sdk_never_connects pcm_96000_24 playing_state) = False"
    by (simp add: changeFormat_fields [OF sel] sdk_never_connects_def connect_wait_never)
  have p: "m_playing ?s" "\<not> m_isPaused ?s" "m_currentFormat ?s = pcm_96000_24"
    using f by (simp_all add: changeFormat_fields [OF sel] playing_state_fields)
  show ?thesis
    by (simp add: api_run_calls_failed_change api_run_calls_playing failed_change_calls
        sendAudio_result sendAudio_new_calls p pcm_96000_24_facts)
qed

section \<open>Bytes handed to the target\<close>

lemma sendAudio_keeps_playing: "m_playing (snd (sendAudio numSamples s)) = m_playing s"
  by (simp add: sendAudio_def)

lemma pump_data:
  assumes "m_playing d" and "\<forall>n\<in>set ns. 0 < n" and "bytes_per_frame format \<noteq> 0"
  shows "\<exists>d'. m_playing d' \<and> pump format (map Read ns @ evs) (d, out) = pump format evs (d', out)"
  using assms(1,2)
proof (induction ns arbitrary: d)
  case Nil
  then show ?case by auto
next
  case (Cons n ns)
  let ?d = "snd (sendAudio (pump_num_samples format n) d)"
  have pl: "m_playing ?d" using Cons.prems(1) by (simp add: sendAudio_keeps_playing)
  have ok: "fst (sendAudio (pump_num_samples format n) d)"
    using Cons.prems(1) by (simp add: sendAudio_result)
  from Cons.prems(2) have n: "0 < n" and rest: "\<forall>n\<in>set ns. 0 < n" by simp_all
  have "pump format (map Read (n # ns) @ evs) (d, out) = pump format (map Read ns @ evs) (?d, out)"
    using n ok assms(3) by (simp add: split_beta)
  with Cons.IH [OF pl rest] show ?case by auto
qed

lemma pump_eof:
  assumes "m_playing d" and "\<forall>n\<in>set ns. 0 < n" and "bytes_per_frame format \<noteq> 0"
  shows "\<exists>d'. m_playing d' \<and>
           pump format (map Read ns @ Read 0 # rest) (d, out) =
             Some (Inr (d', out @ [Msg_squeezelite_closed]))"
proof -
  from pump_data [OF assms, of "Read 0 # rest" out] obtain d' where
    "m_playing d'"
    "pump format (map Read ns @ Read 0 # rest) (d, out) = pump format (Read 0 # rest) (d', out)"
    by blast
  then show ?thesis by auto
qed

lemma word_of_nat_unat_u64: "word_of_nat (unat (w :: u64)) = w"
  by simp

lemma claimed_num_samples_bound:
  assumes "0 < bytes_read" and "bytes_read \<le> uint (buffer_size format)"
  shows "claimed_num_samples format (nat bytes_read) \<le> 8192 * 255"
proof -
  define bpf where "bpf = (unat (bitDepth format) div 8) * unat (channels format)"
  have bpf: "unat (bytes_per_frame format) = bpf"
    unfolding bpf_def by (rule unat_bytes_per_frame)
  have bpf_le: "bpf \<le> 7905" unfolding bpf_def by (rule bytesPerSample_bound)
  have "unat CHUNK_SIZE * unat (bytes_per_frame format) < 2 ^ LENGTH(64)"
    using bpf_le by (simp add: CHUNK_SIZE_def bpf)
  then have "unat (CHUNK_SIZE * bytes_per_frame format) =
               unat CHUNK_SIZE * unat (bytes_per_frame format)"
    by (simp only: unat_mult_lem)
  then have bs: "unat (buffer_size format) = 8192 * bpf"
    by (simp add: buffer_size_def CHUNK_SIZE_def bpf)
  have "uint (buffer_size format) = int (8192 * bpf)"
    using bs by (metis of_nat_unat uint_nat)
  with assms(2) have le: "nat bytes_read \<le> 8192 * bpf" by linarith
  have "nat bytes_read div bpf \<le> (8192 * bpf) div bpf" using le by (rule div_le_mono)
  also have "\<dots> \<le> 8192" by (cases "bpf = 0") simp_all
  finally have "nat bytes_read div bpf \<le> 8192" .
  then have "nat bytes_read div bpf * unat (channels format) \<le> 8192 * 255"
    using unat_u8_bound [of "channels format"] by (rule mult_le_mono)
  then show ?thesis by (simp add: claimed_num_samples_def bpf_def)
qed

lemma loop_chunk_bytes:
  assumes "0 < bytes_read" and "bytes_read \<le> uint (buffer_size format)"
  shows "unat (dataSize fmt (word_of_nat (claimed_num_samples format (nat bytes_read)))) =
           claimed_bytes fmt (claimed_num_samples format (nat bytes_read))"
proof -
  define N where "N = claimed_num_samples format (nat bytes_read)"
  have N: "N \<le> 8192 * 255" unfolding N_def using assms by (rule claimed_num_samples_bound)
  then have "N < 2 ^ LENGTH(64)" by simp
  then have u: "unat (word_of_nat N :: u64) = N" by (simp only: unat_of_nat mod_less)
  have c: "unat (channels fmt) \<le> 255" by (rule unat_u8_bound)
  have "unat (bitDepth fmt) div 8 \<le> 31" using unat_u8_bound [of "bitDepth fmt"] by simp
  then have k: "(if isDSD fmt then 1 else unat (bitDepth fmt) div 8) \<le> 31" by simp
  have "N * unat (channels fmt) \<le> (8192 * 255) * 255" using N c by (rule mult_le_mono)
  then have "N * unat (channels fmt) * (if isDSD fmt then 1 else unat (bitDepth fmt) div 8)
               \<le> ((8192 * 255) * 255) * 31"
    using k by (rule mult_le_mono)
  then have "unat (word_of_nat N :: u64) * unat (channels fmt) *
               (if isDSD fmt then 1 else unat (bitDepth fmt) div 8) < 2 ^ 64"
    unfolding u by simp
  then have "unat (dataSize fmt (word_of_nat N)) = claimed_bytes fmt (unat (word_of_nat N :: u64))"
    by (rule unat_dataSize)
  then have "unat (dataSize fmt (word_of_nat N)) = claimed_bytes fmt N" by (simp only: u)
  then show ?thesis unfolding N_def .
qed

lemma pump_chunks:
  assumes "m_playing d" and "\<not> m_isPaused d"
    and "\<forall>n\<in>set ns. 0 < n \<and> n \<le> uint (buffer_size format)"
    and "bytes_per_frame format \<noteq> 0"
  shows "\<exists>d'. pump format (map Read ns @ evs) (d, out) = pump format evs (d', out) \<and>
           sdk_calls d' = sdk_calls d @
             map (\<lambda>n. Sb_setStream (dataSize (m_currentFormat d)
                          (word_of_nat (claimed_num_samples format (nat n))))) ns"
  using assms(1,2,3)
proof (induction ns arbitrary: d)
  case Nil
  then show ?case by auto
next
  case (Cons n ns)
  let ?N = "pump_num_samples format n"
  let ?d = "snd (sendAudio ?N d)"
  from Cons.prems(3) have n: "0 < n" "n \<le> uint (buffer_size format)"
    and rest: "\<forall>n\<in>set ns. 0 < n \<and> n \<le> uint (buffer_size format)" by simp_all
  have "unat ?N = claimed_num_samples format (nat n)"
    using n assms(4) by (rule unat_pump_num_samples)
  then have N: "?N = word_of_nat (claimed_num_samples format (nat n))"
    by (metis word_of_nat_unat_u64)
  have ok: "fst (sendAudio ?N d)" using Cons.prems(1) by (simp add: sendAudio_result)
  have d1: "m_playing ?d" "\<not> m_isPaused ?d" "m_currentFormat ?d = m_currentFormat d"
    using Cons.prems(1,2) by (simp_all add: sendAudio_fields)
  have calls: "sdk_calls ?d = sdk_calls d @ [Sb_setStream (dataSize (m_currentFormat d) ?N)]"
    using Cons.prems(1,2) by (simp add: sendAudio_def)
  have step: "pump format (map Read (n # ns) @ evs) (d, out) =
                pump format (map Read ns @ evs) (?d, out)"
    using n(1) ok assms(4) by (simp add: split_beta)
  from Cons.IH [OF d1(1,2) rest] obtain d' where
    "pump format (map Read ns @ evs) (?d, out) = pump format evs (d', out)"
    "sdk_calls d' = sdk_calls ?d @
       map (\<lambda>n. Sb_setStream (dataSize (m_currentFormat ?d)
                    (word_of_nat (claimed_num_samples format (nat n))))) ns"
    by blast
  with step calls d1(3) N show ?case by auto
qed

lemma pcm_44100_16_sizes:
  "bytes_per_frame pcm_44100_16 = 4"
  "buffer_size pcm_44100_16 = 32768"
  "pump_num_samples pcm_44100_16 8192 = 4096"
  "dataSize pcm_44100_16 4096 = 16384"
  by (simp_all add: bytes_per_frame_def buffer_size_def CHUNK_SIZE_def pump_num_samples_def
      dataSize_def pcm_44100_16_def)

text \<open>
  Claim C4. For a \<open>sendAudio(data, numSamples)\<close> on a playing, un-paused adapter,
  the stream handed to the target has \<open>numSamples * channels * (bitDepth / 8)\<close>
  bytes for PCM and \<open>(numSamples * channels) / 8\<close> bytes for DSD, computed in
  \<open>size_t\<close>, with the channels and bit depth of the format most recently passed
  to \<open>open\<close>; over the natural numbers this is the claimed count whenever the
  product fits \<open>size_t\<close>. The wrapper's loop, run on chunks that \<open>read\<close> can
  return and then stopped, returns after one \<open>sendAudio\<close> per chunk, in order,
  each with \<open>(bytes_read / bytes_per_frame) * channels\<close> as \<open>numSamples\<close>; for
  these calls the byte count is the claimed one with no further condition.
\<close>

theorem sendAudio_bytes:
  assumes "api_run cs = (h, s)" and "m_playing s" and "\<not> m_isPaused s"
  shows "last_opened h = Some (m_currentFormat s) \<and>
         sendAudio numSamples s =
           (True, (sb [Sb_setStream (dataSize (m_currentFormat s) numSamples)] s)
                    \<lparr> m_totalSamplesSent := m_totalSamplesSent s + numSamples \<rparr>) \<and>
         dataSize (m_currentFormat s) numSamples =
           (if isDSD (m_currentFormat s)
            then numSamples * ucast (channels (m_currentFormat s)) div 8
            else numSamples * ucast (channels (m_currentFormat s))
                   * ucast (bitDepth (m_currentFormat s) div 8)) \<and>
         (unat numSamples * unat (channels (m_currentFormat s)) *
            (if isDSD (m_currentFormat s) then 1 else unat (bitDepth (m_currentFormat s)) div 8)
              < 2 ^ 64 \<longrightarrow>
          unat (dataSize (m_currentFormat s) numSamples) =
            claimed_bytes (m_currentFormat s) (unat numSamples)) \<and>
         ((\<forall>n\<in>set ns. 0 < n \<and> n \<le> uint (buffer_size format)) \<and>
          bytes_per_frame format \<noteq> 0 \<longrightarrow>
            (\<exists>s'. pump format (map Read ns @ Stopped # evs) (s, out) = Some (Inr (s', out)) \<and>
                  new_calls s s' =
                    map (\<lambda>n. Sb_setStream (dataSize (m_currentFormat s)
                                 (word_of_nat (claimed_num_samples format (nat n))))) ns) \<and>
            (\<forall>n\<in>set ns.
               unat (dataSize (m_currentFormat s)
                       (word_of_nat (claimed_num_samples format (nat n)))) =
                 claimed_bytes (m_currentFormat s) (claimed_num_samples format (nat n))))"
proof (intro conjI impI)
  show "last_opened h = Some (m_currentFormat s)"
    using format_invariant [OF assms(1,2)] by simp
  show "sendAudio numSamples s =
          (True, (sb [Sb_setStream (dataSize (m_currentFormat s) numSamples)] s)
                   \<lparr> m_totalSamplesSent := m_totalSamplesSent s + numSamples \<rparr>)"
    using assms(2,3) by (simp add: sendAudio_def)
  show "dataSize (m_currentFormat s) numSamples =
          (if isDSD (m_currentFormat s)
           then numSamples * ucast (channels (m_currentFormat s)) div 8
           else numSamples * ucast (channels (m_currentFormat s))
                  * ucast (bitDepth (m_currentFormat s) div 8))"
    by (rule dataSize_word)
next
  assume "unat numSamples * unat (channels (m_currentFormat s)) *
            (if isDSD (m_currentFormat s) then 1 else unat (bitDepth (m_currentFormat s)) div 8)
              < 2 ^ 64"
  then show "unat (dataSize (m_currentFormat s) numSamples) =
               claimed_bytes (m_currentFormat s) (unat numSamples)"
    by (rule unat_dataSize)
next
  assume a: "(\<forall>n\<in>set ns. 0 < n \<and> n \<le> uint (buffer_size format)) \<and>
             bytes_per_frame format \<noteq> 0"
  then have chunks: "\<forall>n\<in>set ns. 0 < n \<and> n \<le> uint (buffer_size format)"
    and bpf: "bytes_per_frame format \<noteq> 0" by simp_all
  from pump_chunks [OF assms(2,3) chunks bpf, of "Stopped # evs" out] obtain s' where
    "pump format (map Read ns @ Stopped # evs) (s, out) = pump format (Stopped # evs) (s', out)"
    "sdk_calls s' = sdk_calls s @
       map (\<lambda>n. Sb_setStream (dataSize (m_currentFormat s)
                    (word_of_nat (claimed_num_samples format (nat n))))) ns"
    by blast
  then have "pump format (map Read ns @ Stopped # evs) (s, out) = Some (Inr (s', out)) \<and>
      new_calls s s' =
        map (\<lambda>n. Sb_setStream (dataSize (m_currentFormat s)
                     (word_of_nat (claimed_num_samples format (nat n))))) ns"
    by (simp add: new_calls_def)
  then show "\<exists>s'. pump format (map Read ns @ Stopped # evs) (s, out) = Some (Inr (s', out)) \<and>
      new_calls s s' =
        map (\<lambda>n. Sb_setStream (dataSize (m_currentFormat s)
                     (word_of_nat (claimed_num_samples format (nat n))))) ns"
    by blast
  show "\<forall>n\<in>set ns.
          unat (dataSize (m_currentFormat s) (word_of_nat (claimed_num_samples format (nat n)))) =
            claimed_bytes (m_currentFormat s) (claimed_num_samples format (nat n))"
    using chunks by (simp add: loop_chunk_bytes)
qed

lemma pcm_44100_16_loop:
  "claimed_num_samples pcm_44100_16 8192 = 4096"
  "claimed_num_samples pcm_44100_16 4096 = 2048"
  "dataSize pcm_44100_16 2048 = 8192"
  "claimed_bytes pcm_44100_16 4096 = 16384"
  by (simp_all add: claimed_num_samples_def claimed_bytes_def dataSize_def pcm_44100_16_def)

theorem sendAudio_bytes_witness:
  "m_playing (snd (api_run calls_playing)) \<and> \<not> m_isPaused (snd (api_run calls_playing)) \<and>
   last_opened (fst (api_run calls_playing)) = Some pcm_44100_16 \<and>
   new_calls (snd (api_run calls_playing)) (snd (sendAudio 4096 (snd (api_run calls_playing))))
     = [Sb_setStream 16384] \<and>
   unat (4096 :: u64) * unat (channels pcm_44100_16) * (unat (bitDepth pcm_44100_16) div 8)
     < 2 ^ 64 \<and>
   unat (dataSize pcm_44100_16 4096) = claimed_bytes pcm_44100_16 4096 \<and>
   claimed_bytes pcm_44100_16 4096 = 16384 \<and>
   (0 :: int) < 8192 \<and> 8192 \<le> uint (buffer_size pcm_44100_16) \<and>
   (0 :: int) < 4096 \<and> 4096 \<le> uint (buffer_size pcm_44100_16) \<and>
   bytes_per_frame pcm_44100_16 \<noteq> 0 \<and>
   (\<exists>s'. pump pcm_44100_16 [Read 8192, Read 4096, Stopped] (snd (api_run calls_playing), []) =
            Some (Inr (s', [])) \<and>
          new_calls (snd (api_run calls_playing)) s' = [Sb_setStream 16384, Sb_setStream 8192])"
proof -
  let ?s = "snd (api_run calls_playing)"
  have run: "api_run calls_playing = (fst (api_run calls_playing), ?s)" by simp
  have s: "?s = playing_state" by (simp add: api_run_calls_playing)
  have p: "m_playing ?s" "\<not> m_isPaused ?s" "m_currentFormat ?s = pcm_44100_16"
    by (simp_all add: s playing_state_fields)
  have small: "unat (4096 :: u64) * unat (channels (m_currentFormat ?s)) *
      (if isDSD (m_currentFormat ?s) then 1 else unat (bitDepth (m_currentFormat ?s)) div 8)
      < 2 ^ 64"
    unfolding p(3) by (simp add: pcm_44100_16_def)
  have rd: "(0 :: int) < 8192" "8192 \<le> uint (buffer_size pcm_44100_16)"
    "(0 :: int) < 4096" "4096 \<le> uint (buffer_size pcm_44100_16)"
    "bytes_per_frame pcm_44100_16 \<noteq> 0"
    by (simp_all add: pcm_44100_16_sizes)
  then have chunks: "(\<forall>n\<in>set [8192, 4096]. 0 < n \<and> n \<le> uint (buffer_size pcm_44100_16)) \<and>
      bytes_per_frame pcm_44100_16 \<noteq> 0"
    by simp
  note t = sendAudio_bytes [OF run p(1,2), of 4096 "[8192, 4096]" pcm_44100_16 "[]" "[]"]
  from t have 1: "last_opened (fst (api_run calls_playing)) = Some pcm_44100_16"
    unfolding p(3) by blast
  from t have "sendAudio 4096 ?s =
      (True, (sb [Sb_setStream (dataSize (m_currentFormat ?s) 4096)] ?s)
               \<lparr> m_totalSamplesSent := m_totalSamplesSent ?s + 4096 \<rparr>)"
    by blast
  then have 2: "new_calls ?s (snd (sendAudio 4096 ?s)) = [Sb_setStream 16384]"
    by (simp add: p(3) pcm_44100_16_sizes)
  from t small have "unat (dataSize (m_currentFormat ?s) 4096) =
      claimed_bytes (m_currentFormat ?s) (unat (4096 :: u64))"
    by blast
  then have 3: "unat (dataSize pcm_44100_16 4096) = claimed_bytes pcm_44100_16 4096"
    by (simp add: p(3))
  from t chunks obtain s' where
    a: "pump pcm_44100_16 (map Read [8192, 4096] @ Stopped # []) (?s, []) = Some (Inr (s', []))"
    and b: "new_calls ?s s' =
        map (\<lambda>n. Sb_setStream (dataSize (m_currentFormat ?s)
                     (word_of_nat (claimed_num_samples pcm_44100_16 (nat n))))) [8192, 4096]"
    by blast
  from a have a': "pump pcm_44100_16 [Read 8192, Read 4096, Stopped] (?s, []) =
      Some (Inr (s', []))"
    by (simp only: list.map append_Cons append_Nil)
  from b have b': "new_calls ?s s' = [Sb_setStream 16384, Sb_setStream 8192]"
    by (simp add: p(3) pcm_44100_16_loop pcm_44100_16_sizes)
  from a' b' have 4: "\<exists>s'. pump pcm_44100_16 [Read 8192, Read 4096, Stopped] (?s, []) =
        Some (Inr (s', [])) \<and>
      new_calls ?s s' = [Sb_setStream 16384, Sb_setStream 8192]"
    by blast
  from small have 5: "unat (4096 :: u64) * unat (channels pcm_44100_16) *
      (unat (bitDepth pcm_44100_16) div 8) < 2 ^ 64"
    unfolding p(3) by (simp add: pcm_44100_16_def)
  from p(1,2) 1 2 3 4 5 rd pcm_44100_16_loop(4) show ?thesis by blast
qed

section \<open>The wrapper's loop and exit code\<close>

lemma close_not_playing: "\<not> m_playing (close s)"
  by (simp add: close_def)

lemma close_idem: "close (close s) = close s"
  by (simp add: close_def)

lemma main_reaches_loop:
  assumes "\<not> list_targets config"
    and "0 \<le> sint (diretta_target config - 1)"
    and "sint (diretta_target config - 1) < find_result e"
    and "pipe_ok env" and "0 < fork_result env"
    and "is_connect e (connect_wait (is_connect e) 0 0)"
  shows "\<exists>d. m_playing d \<and>
           main config e env =
             (case pump (main_format config) (reads env)
                     (d, [Os_close_write_end, Msg_squeezelite_started, Msg_connected]) of
                None \<Rightarrow> None
              | Some (Inl f) \<Rightarrow>
                  Some (Crash f, d, [Os_close_write_end, Msg_squeezelite_started, Msg_connected])
              | Some (Inr (d', out)) \<Rightarrow>
                  Some (Exit 0, destroy (close d'),
                        out @ [Msg_shutting_down, Os_close_read_end, Os_kill_SIGTERM, Os_waitpid,
                               Msg_stopped]))"
proof -
  define d0 where "d0 = setInfoCycle (info_cycle config)
                 (setCycleMinTime (cycle_min_time config)
                   (setCycleTime (cycle_time config)
                     (setThredMode (thread_mode config) DirettaOutputSimple_new)))"
  define d1 where "d1 = (if mtu config > 0 then setMTU (mtu config) d0 else d0)"
  define idx where "idx = sint (diretta_target config - 1)"
  define d2 where "d2 = snd (selectTarget e idx d1)"
  define d3 where "d3 = snd (open e (main_format config) (buffer_seconds config) d2)"
  have sel: "selectTarget e idx d1 = (True, d2)"
    using assms(2,3) unfolding d2_def idx_def by (auto simp: selectTarget_def Let_def)
  have "fst (selectTarget e idx d1)" using sel by simp
  then have "m_selectedTargetIndex d2 = idx"
    unfolding d2_def by (simp add: selectTarget_fields)
  then have i2: "0 \<le> m_selectedTargetIndex d2" using assms(2) by (simp add: idx_def)
  have fo: "fst (open e (main_format config) (buffer_seconds config) d2)"
    using assms(6) by (simp add: open_fields [OF i2])
  then have op: "open e (main_format config) (buffer_seconds config) d2 = (True, d3)"
    unfolding d3_def by (simp add: prod_eq_iff)
  have p3: "m_playing d3"
    unfolding d3_def using fo by (simp add: open_fields(6) [OF i2])
  have "main config e env =
             (case pump (main_format config) (reads env)
                     (d3, [Os_close_write_end, Msg_squeezelite_started, Msg_connected]) of
                None \<Rightarrow> None
              | Some (Inl f) \<Rightarrow>
                  Some (Crash f, d3, [Os_close_write_end, Msg_squeezelite_started, Msg_connected])
              | Some (Inr (d', out)) \<Rightarrow>
                  Some (Exit 0, destroy (close d'),
                        out @ [Msg_shutting_down, Os_close_read_end, Os_kill_SIGTERM, Os_waitpid,
                               Msg_stopped]))"
    unfolding main_def Let_def d0_def [symmetric] d1_def [symmetric] idx_def [symmetric]
    using assms(1,4,5) by (simp add: sel op split: option.splits sum.splits prod.splits)
  with p3 show ?thesis by blast
qed

lemma main_eof:
  assumes "\<not> list_targets config"
    and "0 \<le> sint (diretta_target config - 1)"
    and "sint (diretta_target config - 1) < find_result e"
    and "pipe_ok env" and "0 < fork_result env"
    and "is_connect e (connect_wait (is_connect e) 0 0)"
    and "bytes_per_frame (main_format config) \<noteq> 0"
    and "reads env = map Read ns @ Read 0 # rest" and "\<forall>n\<in>set ns. 0 < n"
  shows "\<exists>d out. main config e env =
           Some (Exit 0, d,
                 out @ [Msg_squeezelite_closed, Msg_shutting_down, Os_close_read_end,
                        Os_kill_SIGTERM, Os_waitpid, Msg_stopped]) \<and>
           \<not> m_playing d"
proof -
  from main_reaches_loop [OF assms(1-6)] obtain d where
    d: "m_playing d" and
    m: "main config e env =
             (case pump (main_format config) (reads env)
                     (d, [Os_close_write_end, Msg_squeezelite_started, Msg_connected]) of
                None \<Rightarrow> None
              | Some (Inl f) \<Rightarrow>
                  Some (Crash f, d, [Os_close_write_end, Msg_squeezelite_started, Msg_connected])
              | Some (Inr (d', out)) \<Rightarrow>
                  Some (Exit 0, destroy (close d'),
                        out @ [Msg_shutting_down, Os_close_read_end, Os_kill_SIGTERM, Os_waitpid,
                               Msg_stopped]))"
    by blast
  from pump_eof [OF d assms(9,7), of rest "[Os_close_write_end, Msg_squeezelite_started, Msg_connected]"]
  obtain d' where
    "pump (main_format config) (map Read ns @ Read 0 # rest)
        (d, [Os_close_write_end, Msg_squeezelite_started, Msg_connected]) =
      Some (Inr (d', [Os_close_write_end, Msg_squeezelite_started, Msg_connected]
                       @ [Msg_squeezelite_closed]))"
    by blast
  with m assms(8) have
    "main config e env =
       Some (Exit 0, destroy (close d'),
             [Os_close_write_end, Msg_squeezelite_started, Msg_connected] @
             [Msg_squeezelite_closed, Msg_shutting_down, Os_close_read_end,
              Os_kill_SIGTERM, Os_waitpid, Msg_stopped])"
    by simp
  moreover have "\<not> m_playing (destroy (close d'))"
    by (simp add: destroy_def close_not_playing)
  ultimately show ?thesis by blast
qed

lemma default_config_hyps:
  "\<not> list_targets default_config"
  "0 \<le> sint (diretta_target default_config - 1)"
  "sint (diretta_target default_config - 1) < find_result sdk_connects"
  "is_connect sdk_connects (connect_wait (is_connect sdk_connects) 0 0)"
  "bytes_per_frame (main_format default_config) \<noteq> 0"
  by (simp_all add: default_config_def sdk_connects_def connect_wait_connects
      bytes_per_frame_def main_format_def)

text \<open>
  Claim C2 says that the bridge exits with a non-zero code when the child's
  output reaches end of file. With the default configuration, a target that
  connects and a child that closes its output at once, \<open>main\<close> returns 0.
\<close>

theorem main_child_exit_counterexample:
  "map_option fst (main default_config sdk_connects os_eof_at_once) = Some (Exit 0)"
proof -
  have "reads os_eof_at_once = map Read [] @ Read 0 # []" "pipe_ok os_eof_at_once"
    "0 < fork_result os_eof_at_once"
    by (simp_all add: os_eof_at_once_def)
  from main_eof [OF default_config_hyps(1-3) this(2,3) default_config_hyps(4,5) this(1)]
  show ?thesis by auto
qed

text \<open>
  Claim C2, amended. If the child's output reaches end of file while the bridge
  is running and no termination was requested (every earlier turn of the loop
  read data), the bridge reports it (\<open>Squeezelite closed\<close>), leaves the loop
  whatever would follow, closes the adapter, terminates and reaps the child, and
  returns exit code 0.
\<close>

theorem main_child_exit:
  assumes "\<not> list_targets config"
    and "0 \<le> sint (diretta_target config - 1)"
    and "sint (diretta_target config - 1) < find_result e"
    and "pipe_ok env" and "0 < fork_result env"
    and "is_connect e (connect_wait (is_connect e) 0 0)"
    and "bytes_per_frame (main_format config) \<noteq> 0"
    and "reads env = map Read ns @ Read 0 # rest" and "\<forall>n\<in>set ns. 0 < n"
  shows "\<exists>d out. main config e env =
           Some (Exit 0, d,
                 out @ [Msg_squeezelite_closed, Msg_shutting_down, Os_close_read_end,
                        Os_kill_SIGTERM, Os_waitpid, Msg_stopped]) \<and>
           \<not> m_playing d"
  using assms by (rule main_eof)

theorem main_child_exit_witness:
  "\<not> list_targets default_config \<and>
   0 \<le> sint (diretta_target default_config - 1) \<and>
   sint (diretta_target default_config - 1) < find_result sdk_connects \<and>
   pipe_ok os_data_then_eof \<and> 0 < fork_result os_data_then_eof \<and>
   is_connect sdk_connects (connect_wait (is_connect sdk_connects) 0 0) \<and>
   bytes_per_frame (main_format default_config) \<noteq> 0 \<and>
   reads os_data_then_eof = map Read [8192, 4096] @ Read 0 # [Read 8192] \<and>
   (0 :: int) < 8192 \<and> (0 :: int) < 4096 \<and>
   (\<exists>d out. main default_config sdk_connects os_data_then_eof =
      Some (Exit 0, d,
            out @ [Msg_squeezelite_closed, Msg_shutting_down, Os_close_read_end,
                   Os_kill_SIGTERM, Os_waitpid, Msg_stopped]) \<and>
      \<not> m_playing d)"
proof -
  have os: "pipe_ok os_data_then_eof" "0 < fork_result os_data_then_eof"
    "reads os_data_then_eof = map Read [8192, 4096] @ Read 0 # [Read 8192]"
    by (simp_all add: os_data_then_eof_def)
  have pos: "\<forall>n\<in>set [8192, 4096 :: int]. 0 < n" by simp
  from main_child_exit [OF default_config_hyps(1-3) os(1,2) default_config_hyps(4,5) os(3) pos]
    default_config_hyps os
  show ?thesis by simp
qed


text \<open>
  \<open>main\<close> enters the loop only after \<open>open\<close> has returned true, the loop calls
  no member but \<open>sendAudio\<close>, and \<open>sendAudio\<close> returns false only on an adapter
  that is not playing: no run of the wrapper reports a failed submission.
\<close>

lemma open_True_playing: "open e format b s = (True, s') \<Longrightarrow> m_playing s'"
  by (auto simp: open_def Let_def split: if_splits)

lemma pump_playing_no_send_failure:
  assumes "m_playing d" and "Err_send_failed \<notin> set out"
    and "pump format evs (d, out) = Some (Inr (d', out'))"
  shows "Err_send_failed \<notin> set out'"
  using assms
proof (induction evs arbitrary: d)
  case Nil
  then show ?case by simp
next
  case (Cons ev evs)
  show ?case
  proof (cases ev)
    case Stopped
    with Cons.prems show ?thesis by simp
  next
    case (Read n)
    let ?d = "snd (sendAudio (pump_num_samples format n) d)"
    have ok: "fst (sendAudio (pump_num_samples format n) d)"
      using Cons.prems(1) by (simp add: sendAudio_result)
    have pl: "m_playing ?d" using Cons.prems(1) by (simp add: sendAudio_keeps_playing)
    show ?thesis
    proof (cases "n \<le> 0 \<or> bytes_per_frame format = 0")
      case True
      with Cons.prems Read show ?thesis by (auto split: if_splits)
    next
      case False
      with Cons.prems(3) Read ok
      have "pump format evs (?d, out) = Some (Inr (d', out'))"
        by (simp add: split_beta)
      with Cons.IH [OF pl Cons.prems(2)] show ?thesis by blast
    qed
  qed
qed

lemma main_never_reports_send_failure:
  assumes "main config e env = Some (r, d, out)"
  shows "Err_send_failed \<notin> set out"
proof -
  have loop: "Err_send_failed \<notin> set out'"
    if "m_playing d0"
      and "pump format evs (d0, [Os_close_write_end, Msg_squeezelite_started, Msg_connected]) =
             Some (Inr (d', out'))"
    for d0 d' out' format evs
    using pump_playing_no_send_failure [OF that(1) _ that(2)] by simp
  show ?thesis
    using assms unfolding main_def Let_def
    by (auto split: if_splits prod.splits bool.splits option.splits sum.splits
        dest!: open_True_playing dest: loop)
qed
end
